theory Spec2Isabelle
  imports Main "HOL-Library.Word" "HOL-Library.Monad_Syntax"
begin

unbundle bit_operations_syntax

section \<open>Frame layout catalogue and the frame iterator (js/src/jit/JitFrames.cpp)\<close>

text \<open>
  Addresses are integers, so that the negative offsets of the source (\<open>-slot\<close>,
  \<open>returnAddr[-1]\<close>) are exact. A null pointer is the address \<open>0\<close>.
\<close>

type_synonym addr = int
type_synonym IonScriptPtr = nat
type_synonym ScriptPtr = nat

datatype FrameType =
    JitFrame_IonJS
  | JitFrame_BaselineJS
  | JitFrame_BaselineStub
  | JitFrame_Entry
  | JitFrame_Rectifier
  | JitFrame_Unwound_IonJS
  | JitFrame_Unwound_BaselineJS
  | JitFrame_Unwound_BaselineStub
  | JitFrame_Unwound_Rectifier
  | JitFrame_Exit
  | JitFrame_Bailout

datatype ExecutionMode = SequentialExecution | ParallelExecution

text \<open>
  A \<open>MOZ_CRASH\<close>, and a read through a pointer the source never made valid, end the
  run: such a call has the result \<open>None\<close>. Debug-only \<open>MOZ_ASSERT\<close>s are not executed
  (release build); the ones a property depends on are hypotheses of its theorem.
\<close>

text \<open>
  The fixed header sizes \<open>EntryFrameLayout::Size()\<close>, \<open>JitFrameLayout::Size()\<close>, ... are
  constants of the layout classes, which the walker takes from the code generator; they
  are parameters here.
\<close>

record FrameLayoutSizes =
  EntryFrameLayout_Size :: nat
  JitFrameLayout_Size :: nat
  BaselineStubFrameLayout_Size :: nat
  RectifierFrameLayout_Size :: nat
  IonUnwoundRectifierFrameLayout_Size :: nat
  ExitFrameLayout_Size :: nat

text \<open>
  The callee token: a tagged reference to the function or the script of a frame. The tag
  has the three values the source switches on.
\<close>

datatype CalleeToken =
    CalleeToken_Function nat
  | CalleeToken_FunctionConstructing nat
  | CalleeToken_Script ScriptPtr

text \<open>
  What a frame stores on the stack: the descriptor (the predecessor's type and the size of
  the locals area), the return address into the caller, the callee token and the number of
  actual arguments.
\<close>

record FrameLayout =
  returnAddress :: addr
  prevType :: FrameType
  prevFrameLocalSize :: nat
  calleeToken :: CalleeToken
  numActualArgs :: nat

type_synonym Stack = "addr \<Rightarrow> FrameLayout"

type_synonym Register = nat

text \<open>\<open>MachineState\<close>: for each register the address where it was spilled, if any.\<close>

type_synonym MachineState = "Register \<Rightarrow> addr option"

record BailoutFrameInfo =
  bfi_fp :: addr
  bfi_topFrameSize :: nat
  bfi_ionScript :: IonScriptPtr
  bfi_machineState :: MachineState

record JitActivation =
  bailoutData :: "BailoutFrameInfo option"

record ThreadSafeContext =
  isForkJoinContext :: bool
  jitTop :: addr
  activation :: JitActivation

text \<open>
  The iterator's fields \<open>current_\<close>, \<open>type_\<close>, \<open>returnAddressToFp_\<close>, \<open>frameSize_\<close>,
  \<open>mode_\<close>, \<open>cachedSafepointIndex_\<close> and \<open>activation_\<close>.
\<close>

record JitFrameIterator =
  it_current :: addr
  it_type :: FrameType
  it_returnAddressToFp :: addr
  it_frameSize :: nat
  it_mode :: ExecutionMode
  it_cachedSafepointIndex :: "nat option"
  it_activation :: JitActivation

text \<open>\<open>JitFrameIterator::JitFrameIterator(ThreadSafeContext *cx)\<close>\<close>

definition JitFrameIterator_ctor :: "ThreadSafeContext \<Rightarrow> JitFrameIterator" where
  "JitFrameIterator_ctor cx =
     (let it = \<lparr> it_current = jitTop cx,
                 it_type = JitFrame_Exit,
                 it_returnAddressToFp = 0,
                 it_frameSize = 0,
                 it_mode = (if isForkJoinContext cx then ParallelExecution
                            else SequentialExecution),
                 it_cachedSafepointIndex = None,
                 it_activation = activation cx \<rparr>
      in case bailoutData (activation cx) of
           Some bd \<Rightarrow> it\<lparr> it_current := bfi_fp bd,
                          it_frameSize := bfi_topFrameSize bd,
                          it_type := JitFrame_Bailout \<rparr>
         | None \<Rightarrow> it)"

text \<open>The accessors of the iterator.\<close>

definition fp :: "JitFrameIterator \<Rightarrow> addr" where
  "fp it = it_current it"

definition isEntry :: "JitFrameIterator \<Rightarrow> bool" where
  "isEntry it = (it_type it = JitFrame_Entry)"

definition isBailoutJS :: "JitFrameIterator \<Rightarrow> bool" where
  "isBailoutJS it = (it_type it = JitFrame_Bailout)"

definition isIonJS :: "JitFrameIterator \<Rightarrow> bool" where
  "isIonJS it = (it_type it = JitFrame_IonJS)"

definition isBaselineJS :: "JitFrameIterator \<Rightarrow> bool" where
  "isBaselineJS it = (it_type it = JitFrame_BaselineJS)"

definition isScripted :: "JitFrameIterator \<Rightarrow> bool" where
  "isScripted it = (isBaselineJS it \<or> isIonJS it \<or> isBailoutJS it)"

definition returnAddressToFp :: "JitFrameIterator \<Rightarrow> addr" where
  "returnAddressToFp it = it_returnAddressToFp it"

text \<open>\<open>current()\<close>: the frame header stored at \<open>current_\<close>.\<close>

definition current :: "Stack \<Rightarrow> JitFrameIterator \<Rightarrow> FrameLayout" where
  "current st it = st (it_current it)"

text \<open>\<open>SizeOfFramePrefix\<close>: a lookup by frame type; an unknown type crashes.\<close>

fun SizeOfFramePrefix :: "FrameLayoutSizes \<Rightarrow> FrameType \<Rightarrow> nat option" where
  "SizeOfFramePrefix sz JitFrame_Entry = Some (EntryFrameLayout_Size sz)"
| "SizeOfFramePrefix sz JitFrame_BaselineJS = Some (JitFrameLayout_Size sz)"
| "SizeOfFramePrefix sz JitFrame_IonJS = Some (JitFrameLayout_Size sz)"
| "SizeOfFramePrefix sz JitFrame_Bailout = Some (JitFrameLayout_Size sz)"
| "SizeOfFramePrefix sz JitFrame_Unwound_BaselineJS = Some (JitFrameLayout_Size sz)"
| "SizeOfFramePrefix sz JitFrame_Unwound_IonJS = Some (JitFrameLayout_Size sz)"
| "SizeOfFramePrefix sz JitFrame_BaselineStub = Some (BaselineStubFrameLayout_Size sz)"
| "SizeOfFramePrefix sz JitFrame_Rectifier = Some (RectifierFrameLayout_Size sz)"
| "SizeOfFramePrefix sz JitFrame_Unwound_Rectifier =
     Some (IonUnwoundRectifierFrameLayout_Size sz)"
| "SizeOfFramePrefix sz JitFrame_Exit = Some (ExitFrameLayout_Size sz)"
| "SizeOfFramePrefix sz JitFrame_Unwound_BaselineStub = None"

text \<open>
  \<open>JitFrameIterator::prevFp\<close>. Whether the current frame is a fake exit frame
  (\<open>isFakeExitFrame()\<close>, declared with the iterator class) is the parameter \<open>isFake\<close>.
\<close>

definition prevFp ::
  "FrameLayoutSizes \<Rightarrow> (Stack \<Rightarrow> JitFrameIterator \<Rightarrow> bool) \<Rightarrow> Stack \<Rightarrow> JitFrameIterator
     \<Rightarrow> addr option" where
  "prevFp sz isFake st it =
     do {
       currentSize \<leftarrow> SizeOfFramePrefix sz (it_type it);
       currentSize' \<leftarrow> (if isFake st it then SizeOfFramePrefix sz JitFrame_IonJS
                        else Some currentSize);
       Some (it_current it + int (currentSize' + prevFrameLocalSize (current st it)))
     }"

text \<open>\<open>JitFrameIterator::operator++\<close>: the step to the caller.\<close>

definition operator_inc ::
  "FrameLayoutSizes \<Rightarrow> (Stack \<Rightarrow> JitFrameIterator \<Rightarrow> bool) \<Rightarrow> Stack \<Rightarrow> JitFrameIterator
     \<Rightarrow> JitFrameIterator option" where
  "operator_inc sz isFake st it =
     (let it1 = it\<lparr> it_frameSize := prevFrameLocalSize (current st it),
                    it_cachedSafepointIndex := None \<rparr>
      in if prevType (current st it1) = JitFrame_Entry
         then Some (it1\<lparr> it_type := JitFrame_Entry \<rparr>)
         else do {
           prev \<leftarrow> prevFp sz isFake st it1;
           let t = prevType (current st it1);
           let t' = (if t = JitFrame_Unwound_IonJS then JitFrame_IonJS
                     else if t = JitFrame_Unwound_BaselineJS then JitFrame_BaselineJS
                     else if t = JitFrame_Unwound_BaselineStub then JitFrame_BaselineStub
                     else t);
           Some (it1\<lparr> it_type := t',
                       it_returnAddressToFp := returnAddress (current st it1),
                       it_current := prev \<rparr>)
         })"

text \<open>
  \<open>EnsureExitFrame\<close>: after a frame has been left without a handler, the predecessor tag
  stored in it is rewritten to the unwound variant.
\<close>

definition EnsureExitFrame :: "Stack \<Rightarrow> addr \<Rightarrow> Stack" where
  "EnsureExitFrame st frame =
     (let t = prevType (st frame) in
      if t = JitFrame_Unwound_IonJS \<or> t = JitFrame_Unwound_BaselineJS \<or>
         t = JitFrame_Unwound_BaselineStub \<or> t = JitFrame_Unwound_Rectifier then st
      else if t = JitFrame_Entry then st
      else if t = JitFrame_Rectifier
           then st(frame := (st frame)\<lparr> prevType := JitFrame_Unwound_Rectifier \<rparr>)
      else if t = JitFrame_BaselineStub
           then st(frame := (st frame)\<lparr> prevType := JitFrame_Unwound_BaselineStub \<rparr>)
      else if t = JitFrame_BaselineJS
           then st(frame := (st frame)\<lparr> prevType := JitFrame_Unwound_BaselineJS \<rparr>)
      else st(frame := (st frame)\<lparr> prevType := JitFrame_Unwound_IonJS \<rparr>))"

section \<open>Scripts, compiled artifacts and the invalidation check\<close>

text \<open>
  The optimized artifact of a script. What the walker asks of it is declared with the
  \<open>IonScript\<close> class: whether an address lies in its code, the safepoint index of a return
  address, the contents of a safepoint and the frame size. These are fields here.
\<close>

datatype LAllocation = GeneralReg Register | StackSlot nat | Argument nat

text \<open>
  The contents of one safepoint, in the order a \<open>SafepointReader\<close> yields them: the GC
  slots, the value slots, the spilled general registers (in the order of the backward
  register iterator) with the sets of those holding GC things and values, and the
  (type, payload) pairs of torn values.
\<close>

record Safepoint =
  sp_gcSlots :: "nat list"
  sp_valueSlots :: "nat list"
  sp_allGprSpills :: "Register list"
  sp_gcSpills :: "Register list"
  sp_valueSpills :: "Register list"
  sp_nunboxSlots :: "(LAllocation \<times> LAllocation) list"

record IonScript =
  is_containsReturnAddress :: "addr \<Rightarrow> bool"
  is_getSafepointIndex :: "addr \<Rightarrow> nat"
  is_safepoint :: "nat \<Rightarrow> Safepoint"
  is_frameSize :: nat

text \<open>
  The baseline artifact of a script (\<open>struct BaselineScript\<close>): the start of its machine
  code (\<open>method()->raw()\<close>), the offsets of the prologue entry and of the point after the
  debug prologue, and the lookups whose bodies are with the baseline compiler: the
  inline-cache entry for a return address (if any), the bytecode position of a return
  address by the PC-mapping table, and the native code address of a bytecode position
  (null, the address 0, if there is none).
\<close>

record ICEntry =
  ic_returnOffset :: "32 word"
  ic_pcOffset :: "32 word"

record BaselineScript =
  bs_method_raw :: addr
  bs_prologueOffset :: "32 word"
  bs_postDebugPrologueOffset :: "32 word"
  bs_maybeICEntryFromReturnAddress :: "addr \<Rightarrow> ICEntry option"
  bs_pcForReturnAddress :: "addr \<Rightarrow> addr"
  bs_maybeNativeCodeForPC :: "addr \<Rightarrow> addr"

definition prologueEntryAddr :: "BaselineScript \<Rightarrow> addr" where
  "prologueEntryAddr bs = bs_method_raw bs + uint (bs_prologueOffset bs)"

definition postDebugPrologueAddr :: "BaselineScript \<Rightarrow> addr" where
  "postDebugPrologueAddr bs = bs_method_raw bs + uint (bs_postDebugPrologueOffset bs)"

text \<open>\<open>BaselineScript::nativeCodeForPC\<close> (its assertion is that the result is not null).\<close>

definition nativeCodeForPC :: "BaselineScript \<Rightarrow> addr \<Rightarrow> addr" where
  "nativeCodeForPC bs pc = bs_maybeNativeCodeForPC bs pc"

text \<open>The try notes of a script; the fields are unsigned 32-bit integers.\<close>

datatype JSTryNoteKind = JSTRY_CATCH | JSTRY_FINALLY | JSTRY_ITER | JSTRY_LOOP | JSTRY_other

record JSTryNote =
  tn_kind :: JSTryNoteKind
  tn_stackDepth :: "32 word"
  tn_start :: "32 word"
  tn_length :: "32 word"

text \<open>
  A script: its bytecode (\<open>code()\<close> is the first bytecode, \<open>main()\<close> the first after the
  prologue), its try notes (\<open>hasTrynotes()\<close> is \<open>js_trynotes \<noteq> None\<close>), the number of
  fixed slots, the warm-up counter, its baseline artifact, and at most one sequential and
  one parallel optimized artifact (\<open>hasIonScript()\<close> is \<open>js_ionScript \<noteq> None\<close>).
\<close>

record JSScript =
  js_code :: addr
  js_main :: addr
  js_trynotes :: "JSTryNote list option"
  js_nfixed :: nat
  js_warmUpCounter :: nat
  js_baselineScript :: BaselineScript
  js_ionScript :: "IonScriptPtr option"
  js_parallelIonScript :: "IonScriptPtr option"

text \<open>
  The baseline frame: the script it runs, the pc override installed when the scope chain
  was unwound, the pc recorded by a debug mode on-stack replacement (if any), the number of
  value slots, and its flags and return value.
\<close>

record BaselineFrame =
  bf_script :: ScriptPtr
  bf_unwoundScopeOverridePc :: addr
  bf_debugModeOSRInfo_pc :: "addr option"
  bf_numValueSlots :: nat
  bf_isDebuggee :: bool
  bf_isDebuggerHandlingException :: bool
  bf_returnValue :: "64 word option"

text \<open>
  The heap the walker reads: scripts, functions (each with its script), optimized
  artifacts, the baseline frame below each frame pointer, and the machine code around a
  return address: the 32-bit integer stored at an address, and the pointer the assembler
  embedded at an address (\<open>Assembler::GetPointer\<close>, which depends on the architecture).
\<close>

record Heap =
  scripts :: "ScriptPtr \<Rightarrow> JSScript"
  nonLazyScript :: "nat \<Rightarrow> ScriptPtr"
  ionScripts :: "IonScriptPtr \<Rightarrow> IonScript"
  baselineFrames :: "addr \<Rightarrow> BaselineFrame"
  int32At :: "addr \<Rightarrow> 32 word"
  GetPointer :: "addr \<Rightarrow> IonScriptPtr"

text \<open>\<open>baselineFrame()\<close>: the baseline frame of the frame the iterator is on.\<close>

definition baselineFrame :: "Heap \<Rightarrow> JitFrameIterator \<Rightarrow> BaselineFrame" where
  "baselineFrame h it = baselineFrames h (fp it)"

fun ScriptFromCalleeToken :: "Heap \<Rightarrow> CalleeToken \<Rightarrow> ScriptPtr" where
  "ScriptFromCalleeToken h (CalleeToken_Script s) = s"
| "ScriptFromCalleeToken h (CalleeToken_Function f) = nonLazyScript h f"
| "ScriptFromCalleeToken h (CalleeToken_FunctionConstructing f) = nonLazyScript h f"

text \<open>\<open>JitFrameIterator::script\<close>\<close>

definition script :: "Heap \<Rightarrow> Stack \<Rightarrow> JitFrameIterator \<Rightarrow> ScriptPtr" where
  "script h st it =
     (if isBaselineJS it then bf_script (baselineFrame h it)
      else ScriptFromCalleeToken h (calleeToken (current st it)))"

text \<open>
  \<open>JitFrameIterator::checkInvalidation(IonScript **ionScriptOut)\<close>. The result is the
  returned boolean and what was stored through \<open>ionScriptOut\<close> (\<open>None\<close> when the
  function returns without writing it). A bailout frame without bailout data has no
  artifact to read: \<open>None\<close>.
\<close>

definition checkInvalidation ::
  "Heap \<Rightarrow> Stack \<Rightarrow> JitFrameIterator \<Rightarrow> (bool \<times> IonScriptPtr option) option" where
  "checkInvalidation h st it =
     (let s = scripts h (script h st it) in
      if isBailoutJS it then
        (case bailoutData (it_activation it) of
           None \<Rightarrow> None
         | Some bd \<Rightarrow>
             Some (js_ionScript s = None \<or> js_ionScript s \<noteq> Some (bfi_ionScript bd),
                   Some (bfi_ionScript bd)))
      else
        (let returnAddr = returnAddressToFp it;
             invalidated =
               (if it_mode it = ParallelExecution then False
                else (case js_ionScript s of
                        None \<Rightarrow> True
                      | Some cur \<Rightarrow> \<not> is_containsReturnAddress (ionScripts h cur) returnAddr))
         in if \<not> invalidated then Some (False, None)
            else (let invalidationDataOffset = sint (int32At h (returnAddr - 4));
                      ionScriptDataOffset = returnAddr + invalidationDataOffset;
                      ionScript = GetPointer h ionScriptDataOffset
                  in Some (True, Some ionScript))))"

text \<open>\<open>JitFrameIterator::ionScriptFromCalleeToken\<close>\<close>

definition ionScriptFromCalleeToken ::
  "Heap \<Rightarrow> Stack \<Rightarrow> JitFrameIterator \<Rightarrow> IonScriptPtr option" where
  "ionScriptFromCalleeToken h st it =
     (case it_mode it of
        SequentialExecution \<Rightarrow> js_ionScript (scripts h (script h st it))
      | ParallelExecution \<Rightarrow> js_parallelIonScript (scripts h (script h st it)))"

text \<open>\<open>JitFrameIterator::ionScript\<close>\<close>

definition ionScript :: "Heap \<Rightarrow> Stack \<Rightarrow> JitFrameIterator \<Rightarrow> IonScriptPtr option" where
  "ionScript h st it =
     (if isBailoutJS it then map_option bfi_ionScript (bailoutData (it_activation it))
      else do {
        (invalidated, out) \<leftarrow> checkInvalidation h st it;
        if invalidated then out else ionScriptFromCalleeToken h st it
      })"

text \<open>
  \<open>JitFrameIterator::safepoint\<close>: the cached index if there is one, the artifact's index
  for the return address otherwise (the source then stores it in the cache, which only
  saves the second lookup).
\<close>

definition safepoint :: "Heap \<Rightarrow> Stack \<Rightarrow> JitFrameIterator \<Rightarrow> nat option" where
  "safepoint h st it =
     (case it_cachedSafepointIndex it of
        Some si \<Rightarrow> Some si
      | None \<Rightarrow> do {
          p \<leftarrow> ionScript h st it;
          Some (is_getSafepointIndex (ionScripts h p) (returnAddressToFp it))
        })"

text \<open>\<open>JitFrameIterator::spillBase\<close>\<close>

definition spillBase :: "Heap \<Rightarrow> Stack \<Rightarrow> JitFrameIterator \<Rightarrow> addr option" where
  "spillBase h st it =
     do {
       p \<leftarrow> ionScript h st it;
       Some (fp it - int (is_frameSize (ionScripts h p)))
     }"

text \<open>
  The loop of \<open>machineState()\<close> over the spilled general registers: each register is
  located one pointer-sized word (4 bytes on the two-word encoding) below the previous one.
\<close>

fun setRegisterLocations :: "Register list \<Rightarrow> addr \<Rightarrow> MachineState \<Rightarrow> MachineState" where
  "setRegisterLocations [] spill machine = machine"
| "setRegisterLocations (r # rs) spill machine =
     setRegisterLocations rs (spill - 4) (machine(r \<mapsto> spill - 4))"

text \<open>
  \<open>JitFrameIterator::machineState\<close>, as far as the general registers go (the floating-point
  registers are located after them and are not read by the marking walk).
\<close>

definition machineState :: "Heap \<Rightarrow> Stack \<Rightarrow> JitFrameIterator \<Rightarrow> MachineState option" where
  "machineState h st it =
     (if isBailoutJS it then map_option bfi_machineState (bailoutData (it_activation it))
      else do {
        p \<leftarrow> ionScript h st it;
        si \<leftarrow> safepoint h st it;
        spill \<leftarrow> spillBase h st it;
        Some (setRegisterLocations (sp_allGprSpills (is_safepoint (ionScripts h p) si))
                spill Map.empty)
      })"

text \<open>\<open>JitFrameIterator::jsFrame\<close>\<close>

definition jsFrame :: "JitFrameIterator \<Rightarrow> addr option" where
  "jsFrame it =
     (if isBailoutJS it then map_option bfi_fp (bailoutData (it_activation it))
      else Some (fp it))"

section \<open>Values on the two-word encoding and the GC marking walk of an optimized frame\<close>

text \<open>
  The model is the build with \<open>JS_NUNBOX32\<close> defined: a pointer-sized word has 32 bits and
  a value has 64. Stack memory is a store of pointer-sized cells, read and written through
  their addresses; a value stored at address \<open>a\<close> has its payload in the cell at \<open>a\<close> and
  its tag in the cell at \<open>a + 4\<close>.
\<close>

type_synonym uintptr = "32 word"
type_synonym Value = "64 word"
type_synonym Memory = "addr \<Rightarrow> uintptr"

text \<open>
  Modelled from the spec: the value layout \<open>jsval_layout\<close> and its conversions
  \<open>IMPL_TO_JSVAL\<close> and \<open>JSVAL_TO_IMPL\<close> are declared with the value representation, which
  is not among the sources. On the "type, payload pair" scheme a value is a tag word plus
  a separate payload word: the struct view \<open>s\<close> has the two words, and the 64 bits of the
  value are the tag (high word) and the payload (low word).
\<close>

record jsval_layout =
  s_tag :: "32 word"
  s_payload :: "32 word"

definition IMPL_TO_JSVAL :: "jsval_layout \<Rightarrow> Value" where
  "IMPL_TO_JSVAL l = push_bit 32 (ucast (s_tag l)) OR ucast (s_payload l)"

definition JSVAL_TO_IMPL :: "Value \<Rightarrow> jsval_layout" where
  "JSVAL_TO_IMPL v = \<lparr> s_tag = ucast (drop_bit 32 v), s_payload = ucast v \<rparr>"

definition readValue :: "Memory \<Rightarrow> addr \<Rightarrow> Value" where
  "readValue m a = IMPL_TO_JSVAL \<lparr> s_tag = m (a + 4), s_payload = m a \<rparr>"

definition writeValue :: "Memory \<Rightarrow> addr \<Rightarrow> Value \<Rightarrow> Memory" where
  "writeValue m a v = m(a := s_payload (JSVAL_TO_IMPL v), a + 4 := s_tag (JSVAL_TO_IMPL v))"

text \<open>
  The collector's side of the marking contract: what it does to a root it is handed. It
  may leave the root as it is or replace it by the relocated one.
\<close>

record JSTracer =
  markValue :: "Value \<Rightarrow> Value"
  markGCThing :: "uintptr \<Rightarrow> uintptr"
  markObject :: "nat \<Rightarrow> nat"
  markScript :: "ScriptPtr \<Rightarrow> ScriptPtr"

text \<open>The roots handed to the collector, in order, each with the name the source gives it.\<close>

datatype TraceEvent =
    MarkObjectRoot nat string
  | MarkScriptRoot ScriptPtr string
  | IonScript_Trace IonScriptPtr
  | MarkValueRoot addr string
  | MarkGCThingRoot addr string
  | MarkValueRoot_local Value string

record MarkState =
  ms_stack :: Stack
  ms_mem :: Memory
  ms_log :: "TraceEvent list"

text \<open>\<open>MarkCalleeToken\<close>\<close>

fun MarkCalleeToken :: "JSTracer \<Rightarrow> CalleeToken \<Rightarrow> CalleeToken \<times> TraceEvent" where
  "MarkCalleeToken trc (CalleeToken_Function f) =
     (CalleeToken_Function (markObject trc f), MarkObjectRoot f ''jit-callee'')"
| "MarkCalleeToken trc (CalleeToken_FunctionConstructing f) =
     (CalleeToken_FunctionConstructing (markObject trc f), MarkObjectRoot f ''jit-callee'')"
| "MarkCalleeToken trc (CalleeToken_Script s) =
     (CalleeToken_Script (markScript trc s), MarkScriptRoot s ''jit-script'')"

text \<open>\<open>gc::MarkValueRoot\<close> and \<open>gc::MarkGCThingRoot\<close> on a root in stack memory.\<close>

definition MarkValueRootAt :: "JSTracer \<Rightarrow> addr \<Rightarrow> string \<Rightarrow> MarkState \<Rightarrow> MarkState" where
  "MarkValueRootAt trc a name s =
     s\<lparr> ms_mem := writeValue (ms_mem s) a (markValue trc (readValue (ms_mem s) a)),
        ms_log := ms_log s @ [MarkValueRoot a name] \<rparr>"

definition MarkGCThingRootAt :: "JSTracer \<Rightarrow> addr \<Rightarrow> string \<Rightarrow> MarkState \<Rightarrow> MarkState" where
  "MarkGCThingRootAt trc a name s =
     s\<lparr> ms_mem := (ms_mem s)(a := markGCThing trc (ms_mem s a)),
        ms_log := ms_log s @ [MarkGCThingRoot a name] \<rparr>"

text \<open>
  The frame's slots and arguments: \<open>slotRef(slot)\<close> is \<open>slot\<close> bytes below the frame
  header, \<open>argv()\<close> is the address just after it.
\<close>

definition slotRef :: "addr \<Rightarrow> nat \<Rightarrow> addr" where
  "slotRef layout slot = layout - int slot"

definition argv :: "FrameLayoutSizes \<Rightarrow> addr \<Rightarrow> addr" where
  "argv sz layout = layout + int (JitFrameLayout_Size sz)"

text \<open>\<open>ReadAllocation\<close> and \<open>WriteAllocation\<close> (\<open>JS_NUNBOX32\<close> only).\<close>

fun ReadAllocation ::
  "Heap \<Rightarrow> FrameLayoutSizes \<Rightarrow> JitFrameIterator \<Rightarrow> MarkState \<Rightarrow> LAllocation
     \<Rightarrow> uintptr option" where
  "ReadAllocation h sz frame s (GeneralReg reg) =
     do {
       machine \<leftarrow> machineState h (ms_stack s) frame;
       loc \<leftarrow> machine reg;
       Some (ms_mem s loc)
     }"
| "ReadAllocation h sz frame s (StackSlot slot) =
     do {
       layout \<leftarrow> jsFrame frame;
       Some (ms_mem s (slotRef layout slot))
     }"
| "ReadAllocation h sz frame s (Argument index) =
     do {
       layout \<leftarrow> jsFrame frame;
       Some (ms_mem s (argv sz layout + int index))
     }"

fun WriteAllocation ::
  "Heap \<Rightarrow> FrameLayoutSizes \<Rightarrow> JitFrameIterator \<Rightarrow> MarkState \<Rightarrow> LAllocation \<Rightarrow> uintptr
     \<Rightarrow> MarkState option" where
  "WriteAllocation h sz frame s (GeneralReg reg) val =
     do {
       machine \<leftarrow> machineState h (ms_stack s) frame;
       loc \<leftarrow> machine reg;
       Some (s\<lparr> ms_mem := (ms_mem s)(loc := val) \<rparr>)
     }"
| "WriteAllocation h sz frame s (StackSlot slot) val =
     do {
       layout \<leftarrow> jsFrame frame;
       Some (s\<lparr> ms_mem := (ms_mem s)(slotRef layout slot := val) \<rparr>)
     }"
| "WriteAllocation h sz frame s (Argument index) val =
     do {
       layout \<leftarrow> jsFrame frame;
       Some (s\<lparr> ms_mem := (ms_mem s)(argv sz layout + int index := val) \<rparr>)
     }"

text \<open>\<open>MarkFrameAndActualArguments\<close>: the receiver and the actual arguments.\<close>

definition MarkFrameAndActualArguments ::
  "JSTracer \<Rightarrow> FrameLayoutSizes \<Rightarrow> JitFrameIterator \<Rightarrow> MarkState \<Rightarrow> MarkState option" where
  "MarkFrameAndActualArguments trc sz frame s =
     do {
       layout \<leftarrow> jsFrame frame;
       let nargs = numActualArgs (ms_stack s layout);
       Some (fold (\<lambda>i. MarkValueRootAt trc (argv sz layout + 8 * int i) ''ion-argv'')
               [0 ..< nargs + 1] s)
     }"

text \<open>The loop of \<open>MarkIonJSFrame\<close> over the spilled general registers.\<close>

fun markSpills ::
  "JSTracer \<Rightarrow> Register list \<Rightarrow> Register list \<Rightarrow> Register list \<Rightarrow> addr \<Rightarrow> MarkState
     \<Rightarrow> MarkState" where
  "markSpills trc gcRegs valueRegs [] spill s = s"
| "markSpills trc gcRegs valueRegs (r # rs) spill s =
     markSpills trc gcRegs valueRegs rs (spill - 4)
       (if r \<in> set gcRegs then MarkGCThingRootAt trc (spill - 4) ''ion-gc-spill'' s
        else if r \<in> set valueRegs then MarkValueRootAt trc (spill - 4) ''ion-value-spill'' s
        else s)"

text \<open>
  The body of the loop of \<open>MarkIonJSFrame\<close> over the torn values of the safepoint: the tag
  and the payload are read from their locations and combined, the value is handed to the
  collector, and a relocated payload is stored back.
\<close>

definition markNunboxSlot ::
  "JSTracer \<Rightarrow> Heap \<Rightarrow> FrameLayoutSizes \<Rightarrow> JitFrameIterator \<Rightarrow> LAllocation \<times> LAllocation
     \<Rightarrow> MarkState \<Rightarrow> MarkState option" where
  "markNunboxSlot trc h sz frame tp s =
     do {
       tag \<leftarrow> ReadAllocation h sz frame s (fst tp);
       payload \<leftarrow> ReadAllocation h sz frame s (snd tp);
       let layout = \<lparr> s_tag = tag, s_payload = payload \<rparr>;
       let v = markValue trc (IMPL_TO_JSVAL layout);
       let s1 = s\<lparr> ms_log := ms_log s
                        @ [MarkValueRoot_local (IMPL_TO_JSVAL layout) ''ion-torn-value''] \<rparr>;
       if v \<noteq> IMPL_TO_JSVAL layout
       then WriteAllocation h sz frame s1 (snd tp) (s_payload (JSVAL_TO_IMPL v))
       else Some s1
     }"

fun markNunboxSlots ::
  "JSTracer \<Rightarrow> Heap \<Rightarrow> FrameLayoutSizes \<Rightarrow> JitFrameIterator \<Rightarrow> (LAllocation \<times> LAllocation) list
     \<Rightarrow> MarkState \<Rightarrow> MarkState option" where
  "markNunboxSlots trc h sz frame [] s = Some s"
| "markNunboxSlots trc h sz frame (tp # rest) s =
     do {
       s1 \<leftarrow> markNunboxSlot trc h sz frame tp s;
       markNunboxSlots trc h sz frame rest s1
     }"

text \<open>
  \<open>MarkIonJSFrame\<close>, in two parts. The second part is everything after the artifact has
  been chosen (the local \<open>ionScript\<close> of the source is \<open>ionScriptPtr\<close>): it marks
  the arguments, then reads the safepoint of \<open>ionScriptPtr\<close> for the
  frame's return address and marks the slots, the spilled registers and the torn values
  that safepoint lists.
\<close>

definition MarkIonJSFrame_roots ::
  "JSTracer \<Rightarrow> Heap \<Rightarrow> FrameLayoutSizes \<Rightarrow> JitFrameIterator \<Rightarrow> IonScriptPtr \<Rightarrow> MarkState
     \<Rightarrow> MarkState option" where
  "MarkIonJSFrame_roots trc h sz frame ionScriptPtr s =
     do {
       let layout = fp frame;
       s1 \<leftarrow> MarkFrameAndActualArguments trc sz frame s;
       let si = is_getSafepointIndex (ionScripts h ionScriptPtr) (returnAddressToFp frame);
       let safepointData = is_safepoint (ionScripts h ionScriptPtr) si;
       let s2 = fold (\<lambda>slot. MarkGCThingRootAt trc (slotRef layout slot) ''ion-gc-slot'')
                  (sp_gcSlots safepointData) s1;
       let s3 = fold (\<lambda>slot. MarkValueRootAt trc (slotRef layout slot) ''ion-gc-slot'')
                  (sp_valueSlots safepointData) s2;
       spill \<leftarrow> spillBase h (ms_stack s3) frame;
       let s4 = markSpills trc (sp_gcSpills safepointData) (sp_valueSpills safepointData)
                  (sp_allGprSpills safepointData) spill s3;
       markNunboxSlots trc h sz frame (sp_nunboxSlots safepointData) s4
     }"

definition MarkIonJSFrame ::
  "JSTracer \<Rightarrow> Heap \<Rightarrow> FrameLayoutSizes \<Rightarrow> JitFrameIterator \<Rightarrow> MarkState
     \<Rightarrow> MarkState option" where
  "MarkIonJSFrame trc h sz frame s =
     do {
       let layout = fp frame;
       let (token, ev) = MarkCalleeToken trc (calleeToken (ms_stack s layout));
       let s1 = s\<lparr> ms_stack := (ms_stack s)(layout := (ms_stack s layout)\<lparr> calleeToken := token \<rparr>),
                   ms_log := ms_log s @ [ev] \<rparr>;
       (invalidated, out) \<leftarrow> checkInvalidation h (ms_stack s1) frame;
       if invalidated
       then do {
         ionScriptPtr \<leftarrow> out;
         MarkIonJSFrame_roots trc h sz frame ionScriptPtr
           (s1\<lparr> ms_log := ms_log s1 @ [IonScript_Trace ionScriptPtr] \<rparr>)
       }
       else do {
         ionScriptPtr \<leftarrow> ionScriptFromCalleeToken h (ms_stack s1) frame;
         MarkIonJSFrame_roots trc h sz frame ionScriptPtr s1
       }
     }"

section \<open>Baseline frames: the bytecode position and the exception handler\<close>

text \<open>
  Modelled from the spec: \<open>ICEntry::pc\<close> is declared with the inline caches, which are not
  among the sources. An inline-cache entry maps a native return address to a bytecode
  offset; its position is that offset from the first bytecode of the script.
\<close>

definition ICEntry_pc :: "ICEntry \<Rightarrow> JSScript \<Rightarrow> addr" where
  "ICEntry_pc e s = js_code s + uint (ic_pcOffset e)"

text \<open>
  \<open>JitFrameIterator::baselineScriptAndPc(JSScript **scriptRes, jsbytecode **pcRes)\<close>. The
  booleans say whether the two out-pointers are non-null; the result is what is stored
  through each of them (\<open>None\<close>: nothing is stored). The first two branches store through
  \<open>pcRes\<close> without testing it: with a null \<open>pcRes\<close> the run ends there.
\<close>

definition baselineScriptAndPc ::
  "Heap \<Rightarrow> Stack \<Rightarrow> JitFrameIterator \<Rightarrow> bool \<Rightarrow> bool \<Rightarrow> (ScriptPtr option \<times> addr option) option"
  where
  "baselineScriptAndPc h st it scriptRes pcRes =
     (let scr = script h st it;
          scriptOut = (if scriptRes then Some scr else None);
          overridePc = bf_unwoundScopeOverridePc (baselineFrame h it)
      in if overridePc \<noteq> 0
         then (if pcRes then Some (scriptOut, Some overridePc) else None)
         else (case bf_debugModeOSRInfo_pc (baselineFrame h it) of
                 Some osrPc \<Rightarrow> (if pcRes then Some (scriptOut, Some osrPc) else None)
               | None \<Rightarrow>
                   (let retAddr = returnAddressToFp it;
                        bs = js_baselineScript (scripts h scr)
                    in if pcRes
                       then (if retAddr = prologueEntryAddr bs \<or>
                                retAddr = postDebugPrologueAddr bs
                             then Some (scriptOut, Some (js_code (scripts h scr)))
                             else (case bs_maybeICEntryFromReturnAddress bs retAddr of
                                     Some icEntry \<Rightarrow>
                                       Some (scriptOut, Some (ICEntry_pc icEntry (scripts h scr)))
                                   | None \<Rightarrow>
                                       Some (scriptOut, Some (bs_pcForReturnAddress bs retAddr))))
                       else Some (scriptOut, None))))"

datatype ResumeKind =
    RESUME_ENTRY_FRAME
  | RESUME_CATCH
  | RESUME_FINALLY
  | RESUME_FORCED_RETURN
  | RESUME_BAILOUT

record ResumeFromException =
  rfe_framePointer :: addr
  rfe_stackPointer :: addr
  rfe_target :: addr
  rfe_kind :: ResumeKind
  rfe_exception :: "64 word"

datatype JSTrapStatus = JSTRAP_ERROR | JSTRAP_CONTINUE | JSTRAP_RETURN | JSTRAP_THROW | JSTRAP_other

text \<open>
  The calls out of the exception handler whose effects lie outside the frames: unwinding
  the scope chain and closing a live iterator. They are recorded in order.
\<close>

datatype ExternalCall =
    UnwindScope addr
  | UnwindIteratorForException "64 word"
  | UnwindIteratorForUncatchableException "64 word"

text \<open>
  The context: whether an exception is pending, whether a forced return is being
  propagated, whether the compartment is a debuggee.
\<close>

record JSContext =
  cx_isExceptionPending :: bool
  cx_isPropagatingForcedReturn :: bool
  cx_isDebuggee :: bool
  cx_calls :: "ExternalCall list"

text \<open>
  The collaborators of the baseline exception handler, as parameters: reading the pending
  exception (\<open>None\<close>: \<open>getPendingException\<close> returns false), the test for the marker of a
  closing generator, the debugger's hooks \<open>onExceptionUnwind\<close> and \<open>DebugEpilogue\<close> (each
  may change the context and the frame), the pc a try note unwinds the scope chain to, the
  value \<open>undefined\<close>, and the two constants of the baseline frame layout.
\<close>

record Collaborators =
  env_getPendingException :: "JSContext \<Rightarrow> 64 word option"
  env_isGeneratorClosing :: "64 word \<Rightarrow> bool"
  env_onExceptionUnwind ::
    "JSContext \<Rightarrow> BaselineFrame \<Rightarrow> JSTrapStatus \<times> JSContext \<times> BaselineFrame"
  env_DebugEpilogue ::
    "JSContext \<Rightarrow> BaselineFrame \<Rightarrow> addr \<Rightarrow> bool \<Rightarrow> bool \<times> JSContext \<times> BaselineFrame"
  env_UnwindScopeToTryPc :: "JSScript \<Rightarrow> JSTryNote \<Rightarrow> addr"
  env_UndefinedValue :: "64 word"
  env_FramePointerOffset :: nat
  env_BaselineFrame_Size :: nat

text \<open>
  What the baseline exception handler reads and writes: the heap (the script's warm-up
  counter, the baseline frame), the context, the resume record, and the two out-parameters
  \<open>unwoundScopeToPc\<close> and \<open>calledDebugEpilogue\<close>.
\<close>

record EHState =
  eh_heap :: Heap
  eh_cx :: JSContext
  eh_rfe :: ResumeFromException
  eh_unwoundScopeToPc :: addr
  eh_calledDebugEpilogue :: bool

definition setBaselineFrame :: "Heap \<Rightarrow> addr \<Rightarrow> BaselineFrame \<Rightarrow> Heap" where
  "setBaselineFrame h a f = h\<lparr> baselineFrames := (baselineFrames h)(a := f) \<rparr>"

text \<open>\<open>ForcedReturn\<close>\<close>

definition ForcedReturn :: "Collaborators \<Rightarrow> JitFrameIterator \<Rightarrow> addr \<Rightarrow> EHState \<Rightarrow> EHState" where
  "ForcedReturn env frame pc s =
     (case env_DebugEpilogue env (eh_cx s) (baselineFrame (eh_heap s) frame) pc True of
        (ok, cx', bf') \<Rightarrow>
          (let s1 = s\<lparr> eh_cx := cx', eh_heap := setBaselineFrame (eh_heap s) (fp frame) bf' \<rparr>
           in if ok
              then s1\<lparr> eh_rfe := (eh_rfe s1)
                         \<lparr> rfe_kind := RESUME_FORCED_RETURN,
                           rfe_framePointer := fp frame - int (env_FramePointerOffset env),
                           rfe_stackPointer := fp frame - int (env_FramePointerOffset env)
                                                - int (env_BaselineFrame_Size env) \<rparr> \<rparr>
              else s1\<lparr> eh_calledDebugEpilogue := True \<rparr>))"

text \<open>\<open>HandleClosingGeneratorReturn\<close>\<close>

definition HandleClosingGeneratorReturn ::
  "Collaborators \<Rightarrow> JitFrameIterator \<Rightarrow> addr \<Rightarrow> addr \<Rightarrow> EHState \<Rightarrow> EHState" where
  "HandleClosingGeneratorReturn env frame pc unwoundScopeToPc s =
     (if \<not> cx_isExceptionPending (eh_cx s) then s
      else (case env_getPendingException env (eh_cx s) of
              None \<Rightarrow> s
            | Some exception \<Rightarrow>
                if \<not> env_isGeneratorClosing env exception then s
                else (let cx1 = (eh_cx s)\<lparr> cx_isExceptionPending := False \<rparr>;
                          bf1 = (baselineFrame (eh_heap s) frame)
                                  \<lparr> bf_returnValue := Some (env_UndefinedValue env) \<rparr>;
                          bf2 = (if unwoundScopeToPc \<noteq> 0 \<and> bf_isDebuggee bf1
                                 then bf1\<lparr> bf_unwoundScopeOverridePc := unwoundScopeToPc \<rparr>
                                 else bf1);
                          pc' = (if unwoundScopeToPc \<noteq> 0 then unwoundScopeToPc else pc)
                      in ForcedReturn env frame pc'
                           (s\<lparr> eh_cx := cx1,
                               eh_heap := setBaselineFrame (eh_heap s) (fp frame) bf2 \<rparr>))))"

text \<open>\<open>JSScript::resetWarmUpCounter\<close> on the script of the frame.\<close>

definition resetWarmUpCounter :: "Heap \<Rightarrow> ScriptPtr \<Rightarrow> Heap" where
  "resetWarmUpCounter h p = h\<lparr> scripts := (scripts h)(p := (scripts h p)\<lparr> js_warmUpCounter := 0 \<rparr>) \<rparr>"

text \<open>
  The loop of \<open>HandleExceptionBaseline\<close> over the try notes. The boolean of the result
  says whether the function returned from inside the loop. The frame's stack depth is a
  difference of pointer-sized unsigned integers: it wraps around when the frame has fewer
  value slots than the script has fixed slots (which the source asserts not to happen).
\<close>

fun handleTryNotes ::
  "Collaborators \<Rightarrow> Memory \<Rightarrow> JitFrameIterator \<Rightarrow> ScriptPtr \<Rightarrow> 32 word \<Rightarrow> JSTryNote list
     \<Rightarrow> EHState \<Rightarrow> (bool \<times> EHState) option" where
  "handleTryNotes env mem frame scr pcOffset [] s = Some (False, s)"
| "handleTryNotes env mem frame scr pcOffset (tn # rest) s =
     (if pcOffset < tn_start tn then handleTryNotes env mem frame scr pcOffset rest s
      else if pcOffset \<ge> tn_start tn + tn_length tn
           then handleTryNotes env mem frame scr pcOffset rest s
      else
        (let jsscript = scripts (eh_heap s) scr;
             numValueSlots = bf_numValueSlots (baselineFrame (eh_heap s) frame);
             stackDepth = (if js_nfixed jsscript \<le> numValueSlots
                           then int (numValueSlots - js_nfixed jsscript)
                           else 2 ^ 32 - int (js_nfixed jsscript - numValueSlots))
         in if uint (tn_stackDepth tn) > stackDepth
            then handleTryNotes env mem frame scr pcOffset rest s
            else
              (let s1 = (if cx_isExceptionPending (eh_cx s)
                         then (let unwoundTo = env_UnwindScopeToTryPc env jsscript tn
                               in s\<lparr> eh_unwoundScopeToPc := unwoundTo,
                                     eh_cx := (eh_cx s)\<lparr> cx_calls := cx_calls (eh_cx s)
                                                            @ [UnwindScope unwoundTo] \<rparr> \<rparr>)
                         else s);
                   framePointer = fp frame - int (env_FramePointerOffset env);
                   stackPointer = framePointer - int (env_BaselineFrame_Size env)
                                    - int ((js_nfixed jsscript + unat (tn_stackDepth tn)) * 8);
                   s2 = s1\<lparr> eh_rfe := (eh_rfe s1)\<lparr> rfe_framePointer := framePointer,
                                                     rfe_stackPointer := stackPointer \<rparr> \<rparr>
               in case tn_kind tn of
                    JSTRY_CATCH \<Rightarrow>
                      (if cx_isExceptionPending (eh_cx s2)
                       then (case env_getPendingException env (eh_cx s2) of
                               None \<Rightarrow> handleTryNotes env mem frame scr pcOffset rest s2
                             | Some exception \<Rightarrow>
                                 if env_isGeneratorClosing env exception
                                 then handleTryNotes env mem frame scr pcOffset rest s2
                                 else (let h' = resetWarmUpCounter (eh_heap s2) scr;
                                           catchPC = js_main jsscript + uint (tn_start tn)
                                                       + uint (tn_length tn)
                                       in Some (True,
                                            s2\<lparr> eh_heap := h',
                                                eh_rfe := (eh_rfe s2)
                                                  \<lparr> rfe_kind := RESUME_CATCH,
                                                    rfe_target :=
                                                      nativeCodeForPC
                                                        (js_baselineScript (scripts h' scr))
                                                        catchPC \<rparr> \<rparr>)))
                       else handleTryNotes env mem frame scr pcOffset rest s2)
                  | JSTRY_FINALLY \<Rightarrow>
                      (if cx_isExceptionPending (eh_cx s2)
                       then (let finallyPC = js_main jsscript + uint (tn_start tn)
                                               + uint (tn_length tn);
                                 exception = (case env_getPendingException env (eh_cx s2) of
                                                Some e \<Rightarrow> e
                                              | None \<Rightarrow> env_UndefinedValue env)
                             in Some (True,
                                  s2\<lparr> eh_rfe := (eh_rfe s2)
                                        \<lparr> rfe_kind := RESUME_FINALLY,
                                          rfe_target :=
                                            nativeCodeForPC (js_baselineScript jsscript) finallyPC,
                                          rfe_exception := exception \<rparr>,
                                      eh_cx := (eh_cx s2)\<lparr> cx_isExceptionPending := False \<rparr> \<rparr>))
                       else handleTryNotes env mem frame scr pcOffset rest s2)
                  | JSTRY_ITER \<Rightarrow>
                      (let iterValue = readValue mem stackPointer;
                           call = (if cx_isExceptionPending (eh_cx s2)
                                   then UnwindIteratorForException iterValue
                                   else UnwindIteratorForUncatchableException iterValue)
                       in handleTryNotes env mem frame scr pcOffset rest
                            (s2\<lparr> eh_cx := (eh_cx s2)\<lparr> cx_calls := cx_calls (eh_cx s2) @ [call] \<rparr> \<rparr>))
                  | JSTRY_LOOP \<Rightarrow> handleTryNotes env mem frame scr pcOffset rest s2
                  | JSTRY_other \<Rightarrow> None)))"

text \<open>
  The destructor of \<open>AutoDebuggerHandlingException\<close>, which runs when the block of the
  debugger hook is left (also by the return after a forced return).
\<close>

definition unsetIsDebuggerHandlingException :: "JitFrameIterator \<Rightarrow> EHState \<Rightarrow> EHState" where
  "unsetIsDebuggerHandlingException frame s =
     s\<lparr> eh_heap := setBaselineFrame (eh_heap s) (fp frame)
          ((baselineFrame (eh_heap s) frame)\<lparr> bf_isDebuggerHandlingException := False \<rparr>) \<rparr>"

text \<open>
  The block of \<open>HandleExceptionBaseline\<close> that runs the debugger's hook
  \<open>Debugger::onExceptionUnwind\<close>: it runs if an exception is pending, the compartment is
  a debuggee, and the exception can be read and is not the marker of a closing generator.
  The frame is flagged as handled by the debugger while the hook runs. The boolean of the
  result says whether the function returned from inside the block (the hook asked for a
  return); an invalid trap status crashes.
\<close>

definition HandleExceptionBaseline_debugger ::
  "Collaborators \<Rightarrow> JitFrameIterator \<Rightarrow> addr \<Rightarrow> EHState \<Rightarrow> (bool \<times> EHState) option" where
  "HandleExceptionBaseline_debugger env frame pc s =
     (let debuggerRuns =
            (cx_isExceptionPending (eh_cx s) \<and> cx_isDebuggee (eh_cx s) \<and>
             (case env_getPendingException env (eh_cx s) of
                None \<Rightarrow> False
              | Some exception \<Rightarrow> \<not> env_isGeneratorClosing env exception))
      in if debuggerRuns
         then (case env_onExceptionUnwind env (eh_cx s)
                      ((baselineFrame (eh_heap s) frame)
                         \<lparr> bf_isDebuggerHandlingException := True \<rparr>) of
                 (status, cx', bf') \<Rightarrow>
                   (let s' = s\<lparr> eh_cx := cx',
                                eh_heap := setBaselineFrame (eh_heap s) (fp frame) bf' \<rparr>
                    in case status of
                         JSTRAP_ERROR \<Rightarrow>
                           Some (False, unsetIsDebuggerHandlingException frame s')
                       | JSTRAP_CONTINUE \<Rightarrow>
                           Some (False, unsetIsDebuggerHandlingException frame s')
                       | JSTRAP_THROW \<Rightarrow>
                           Some (False, unsetIsDebuggerHandlingException frame s')
                       | JSTRAP_RETURN \<Rightarrow>
                           Some (True, unsetIsDebuggerHandlingException frame
                                         (ForcedReturn env frame pc s'))
                       | JSTRAP_other \<Rightarrow> None))
         else Some (False, s))"

text \<open>\<open>HandleExceptionBaseline\<close>\<close>

definition HandleExceptionBaseline ::
  "Collaborators \<Rightarrow> Stack \<Rightarrow> Memory \<Rightarrow> JitFrameIterator \<Rightarrow> EHState \<Rightarrow> EHState option" where
  "HandleExceptionBaseline env st mem frame s =
     do {
       (scriptOut, pcOut) \<leftarrow> baselineScriptAndPc (eh_heap s) st frame True True;
       scr \<leftarrow> scriptOut;
       pc \<leftarrow> pcOut;
       if cx_isPropagatingForcedReturn (eh_cx s)
       then Some (ForcedReturn env frame pc
                    (s\<lparr> eh_cx := (eh_cx s)\<lparr> cx_isPropagatingForcedReturn := False \<rparr> \<rparr>))
       else do {
         (forced, s1) \<leftarrow> HandleExceptionBaseline_debugger env frame pc s;
         if forced then Some s1
         else (case js_trynotes (scripts (eh_heap s1) scr) of
                 None \<Rightarrow>
                   Some (HandleClosingGeneratorReturn env frame pc (eh_unwoundScopeToPc s1) s1)
               | Some notes \<Rightarrow> do {
                   let pcOffset = (word_of_int (pc - js_main (scripts (eh_heap s1) scr))
                                     :: 32 word);
                   (returned, s2) \<leftarrow> handleTryNotes env mem frame scr pcOffset notes s1;
                   if returned then Some s2
                   else Some (HandleClosingGeneratorReturn env frame pc
                                (eh_unwoundScopeToPc s2) s2)
                 })
       }
     }"

section \<open>The exception handler's walk to the entry frame\<close>

text \<open>
  \<open>HandleException\<close> walks the frames from the top of the stack until the iterator is on
  the entry frame. What it does with a frame before it leaves it (lines 739 to 848 of
  the source: the search of an optimized frame's inlined frames with the bailout
  machinery, \<open>HandleExceptionBaseline\<close> with the debugger's epilogue) is the parameter
  \<open>handleFrame\<close>: from the context, the stack, the iterator and the resume record it gives
  the new context and resume record, and whether \<open>HandleException\<close> returns at this frame.
\<close>

record 'c HEState =
  he_cx :: 'c
  he_stack :: Stack
  he_iter :: JitFrameIterator
  he_rfe :: ResumeFromException
  he_jitTop :: addr

datatype 'a LoopResult = Returned 'a | LoopDone 'a | Crashed

text \<open>
  The loop \<open>while (!iter.isEntry())\<close>. It ends when the iterator is on the entry frame
  (\<open>LoopDone\<close>), when the handler of a frame returns (\<open>Returned\<close>) or when the step to the
  caller crashes; on a stack that never reaches an entry frame it does not end.
\<close>

partial_function (option) HandleException_loop ::
  "FrameLayoutSizes \<Rightarrow> (Stack \<Rightarrow> JitFrameIterator \<Rightarrow> bool)
     \<Rightarrow> ('c \<Rightarrow> Stack \<Rightarrow> JitFrameIterator \<Rightarrow> ResumeFromException
           \<Rightarrow> 'c \<times> ResumeFromException \<times> bool)
     \<Rightarrow> 'c HEState \<Rightarrow> 'c HEState LoopResult option" where
  "HandleException_loop sz isFake handleFrame s =
     (if isEntry (he_iter s) then Some (LoopDone s)
      else (case handleFrame (he_cx s) (he_stack s) (he_iter s) (he_rfe s) of
              (cx', rfe', returned) \<Rightarrow>
                if returned then Some (Returned (s\<lparr> he_cx := cx', he_rfe := rfe' \<rparr>))
                else (case operator_inc sz isFake (he_stack s) (he_iter s) of
                        None \<Rightarrow> Some Crashed
                      | Some iter' \<Rightarrow>
                          (case (if isScripted (he_iter s) then jsFrame (he_iter s)
                                 else None) of
                             Some cur \<Rightarrow>
                               HandleException_loop sz isFake handleFrame
                                 (s\<lparr> he_cx := cx', he_rfe := rfe', he_iter := iter',
                                     he_stack := EnsureExitFrame (he_stack s) cur,
                                     he_jitTop := cur \<rparr>)
                           | None \<Rightarrow>
                               HandleException_loop sz isFake handleFrame
                                 (s\<lparr> he_cx := cx', he_rfe := rfe', he_iter := iter' \<rparr>)))))"

text \<open>
  \<open>HandleException\<close>: the resume kind starts as \<open>RESUME_ENTRY_FRAME\<close>, the iterator is
  constructed from the context, and after the loop the resume stack pointer is the
  iterator's \<open>fp()\<close>.
\<close>

definition HandleException ::
  "FrameLayoutSizes \<Rightarrow> (Stack \<Rightarrow> JitFrameIterator \<Rightarrow> bool)
     \<Rightarrow> ('c \<Rightarrow> Stack \<Rightarrow> JitFrameIterator \<Rightarrow> ResumeFromException
           \<Rightarrow> 'c \<times> ResumeFromException \<times> bool)
     \<Rightarrow> ThreadSafeContext \<Rightarrow> 'c \<Rightarrow> Stack \<Rightarrow> ResumeFromException
     \<Rightarrow> 'c HEState LoopResult option" where
  "HandleException sz isFake handleFrame tcx cx st rfe =
     (case HandleException_loop sz isFake handleFrame
             \<lparr> he_cx = cx, he_stack = st, he_iter = JitFrameIterator_ctor tcx,
               he_rfe = rfe\<lparr> rfe_kind := RESUME_ENTRY_FRAME \<rparr>, he_jitTop = jitTop tcx \<rparr> of
        None \<Rightarrow> None
      | Some (LoopDone s) \<Rightarrow>
          Some (LoopDone (s\<lparr> he_rfe := (he_rfe s)\<lparr> rfe_stackPointer := fp (he_iter s) \<rparr> \<rparr>))
      | Some r \<Rightarrow> Some r)"

section \<open>The snapshot iterator: reading, tracing and recovering values\<close>

type_synonym FloatRegister = nat

datatype JSValueType =
    JSVAL_TYPE_DOUBLE
  | JSVAL_TYPE_INT32
  | JSVAL_TYPE_UNDEFINED
  | JSVAL_TYPE_BOOLEAN
  | JSVAL_TYPE_MAGIC
  | JSVAL_TYPE_STRING
  | JSVAL_TYPE_SYMBOL
  | JSVAL_TYPE_NULL
  | JSVAL_TYPE_OBJECT

text \<open>
  The allocation descriptor of one value of a snapshot: its mode with the mode's
  arguments (\<open>reg()\<close>, \<open>stackOffset()\<close> or \<open>index()\<close> first, \<open>reg2()\<close>, \<open>stackOffset2()\<close> or
  \<open>index2()\<close> second; a typed allocation has \<open>knownType()\<close> and its second argument). The
  modes are those of the two-word encoding; any other mode is \<open>INVALID\<close>. Besides its
  mode an allocation has the flag \<open>needSideEffect()\<close>.
\<close>

datatype RValueAllocationMode =
    CONSTANT nat
  | CST_UNDEFINED
  | CST_NULL
  | DOUBLE_REG FloatRegister
  | FLOAT32_REG FloatRegister
  | FLOAT32_STACK int
  | TYPED_REG JSValueType Register
  | TYPED_STACK JSValueType int
  | UNTYPED_REG_REG Register Register
  | UNTYPED_REG_STACK Register int
  | UNTYPED_STACK_REG int Register
  | UNTYPED_STACK_STACK int int
  | RECOVER_INSTRUCTION nat
  | RI_WITH_DEFAULT_CST nat nat
  | INVALID

record RValueAllocation =
  mode :: RValueAllocationMode
  needSideEffect :: bool

datatype ReadMethod = RM_Normal | RM_AlwaysDefault | RM_NormalOrDefault

definition rm_has_Normal :: "ReadMethod \<Rightarrow> bool" where
  "rm_has_Normal rm = (rm = RM_Normal \<or> rm = RM_NormalOrDefault)"

definition rm_has_AlwaysDefault :: "ReadMethod \<Rightarrow> bool" where
  "rm_has_AlwaysDefault rm = (rm = RM_AlwaysDefault \<or> rm = RM_NormalOrDefault)"

text \<open>
  The constructors and tests of values are declared with the value representation; they
  are parameters. A double is given by its 64 bits, a float32 by its 32 bits.
\<close>

record ValueOps =
  DoubleValue :: "64 word \<Rightarrow> Value"
  Float32Value :: "32 word \<Rightarrow> Value"
  Int32Value :: "32 word \<Rightarrow> Value"
  BooleanValue :: "bool \<Rightarrow> Value"
  StringValue :: "uintptr \<Rightarrow> Value"
  SymbolValue :: "uintptr \<Rightarrow> Value"
  ObjectValue :: "uintptr \<Rightarrow> Value"
  UndefinedValue :: Value
  NullValue :: Value
  MagicValue_JS_ION_BAILOUT :: Value
  isMarkable :: "Value \<Rightarrow> bool"

text \<open>\<open>RInstructionResults\<close>: the results vector (null until allocated), the frame, the flag.\<close>

record RInstructionResults =
  rr_results :: "Value list option"
  rr_fp :: addr
  rr_initialized :: bool

text \<open>
  The iterator's fields \<open>fp_\<close>, \<open>machine_\<close> (general and floating-point registers),
  \<open>instructionResults_\<close>, and of its recover reader the instructions of the snapshot's
  recover table and \<open>numInstructionsRead()\<close>.
\<close>

datatype RInstruction = RResumePoint | RRecover "Value list \<Rightarrow> Value option"

record SnapshotIterator =
  si_fp :: addr
  si_machine :: MachineState
  si_fmachine :: "FloatRegister \<Rightarrow> addr option"
  si_instructionResults :: "RInstructionResults option"
  si_instructions :: "RInstruction list"
  si_numInstructionsRead :: nat

text \<open>What reading and tracing touch: stack memory and the artifact's constant pool.\<close>

record SnapshotState =
  ss_mem :: Memory
  ss_constants :: "nat \<Rightarrow> Value"

text \<open>
  A double in memory takes two cells, the low half of its bits first. The union
  \<open>pun\<close> of \<open>allocationValue\<close> is two such cells: storing its member \<open>d\<close> fills both, reading
  its member \<open>f\<close> takes the first.
\<close>

definition loadDouble :: "Memory \<Rightarrow> addr \<Rightarrow> 64 word" where
  "loadDouble m a = push_bit 32 (ucast (m (a + 4))) OR ucast (m a)"

definition pun_store_d :: "64 word \<Rightarrow> 32 word \<times> 32 word" where
  "pun_store_d d = (ucast d, ucast (drop_bit 32 d))"

definition pun_load_f :: "32 word \<times> 32 word \<Rightarrow> 32 word" where
  "pun_load_f cells = fst cells"

text \<open>\<open>fromRegister\<close> (both overloads), \<open>fromStack\<close> and the typed reads of a frame slot.\<close>

definition fromRegister :: "SnapshotIterator \<Rightarrow> SnapshotState \<Rightarrow> Register \<Rightarrow> uintptr option" where
  "fromRegister it s reg = map_option (ss_mem s) (si_machine it reg)"

definition fromFloatRegister ::
  "SnapshotIterator \<Rightarrow> SnapshotState \<Rightarrow> FloatRegister \<Rightarrow> 64 word option" where
  "fromFloatRegister it s reg = map_option (loadDouble (ss_mem s)) (si_fmachine it reg)"

definition OffsetOfFrameSlot :: "int \<Rightarrow> int" where
  "OffsetOfFrameSlot slot = - slot"

definition ReadFrameSlot :: "Memory \<Rightarrow> addr \<Rightarrow> int \<Rightarrow> uintptr" where
  "ReadFrameSlot m fptr slot = m (fptr + OffsetOfFrameSlot slot)"

definition WriteFrameSlot :: "Memory \<Rightarrow> addr \<Rightarrow> int \<Rightarrow> uintptr \<Rightarrow> Memory" where
  "WriteFrameSlot m fptr slot val = m(fptr + OffsetOfFrameSlot slot := val)"

definition ReadFrameDoubleSlot :: "Memory \<Rightarrow> addr \<Rightarrow> int \<Rightarrow> 64 word" where
  "ReadFrameDoubleSlot m fptr slot = loadDouble m (fptr + OffsetOfFrameSlot slot)"

definition ReadFrameFloat32Slot :: "Memory \<Rightarrow> addr \<Rightarrow> int \<Rightarrow> 32 word" where
  "ReadFrameFloat32Slot m fptr slot = m (fptr + OffsetOfFrameSlot slot)"

definition ReadFrameInt32Slot :: "Memory \<Rightarrow> addr \<Rightarrow> int \<Rightarrow> 32 word" where
  "ReadFrameInt32Slot m fptr slot = m (fptr + OffsetOfFrameSlot slot)"

definition ReadFrameBooleanSlot :: "Memory \<Rightarrow> addr \<Rightarrow> int \<Rightarrow> bool" where
  "ReadFrameBooleanSlot m fptr slot = (take_bit 8 (m (fptr + OffsetOfFrameSlot slot)) \<noteq> 0)"

definition fromStack :: "SnapshotIterator \<Rightarrow> SnapshotState \<Rightarrow> int \<Rightarrow> uintptr" where
  "fromStack it s offset = ReadFrameSlot (ss_mem s) (si_fp it) offset"

text \<open>\<open>FromTypedPayload\<close>\<close>

fun FromTypedPayload :: "ValueOps \<Rightarrow> JSValueType \<Rightarrow> uintptr \<Rightarrow> Value option" where
  "FromTypedPayload vo JSVAL_TYPE_INT32 payload = Some (Int32Value vo payload)"
| "FromTypedPayload vo JSVAL_TYPE_BOOLEAN payload = Some (BooleanValue vo (payload \<noteq> 0))"
| "FromTypedPayload vo JSVAL_TYPE_STRING payload = Some (StringValue vo payload)"
| "FromTypedPayload vo JSVAL_TYPE_SYMBOL payload = Some (SymbolValue vo payload)"
| "FromTypedPayload vo JSVAL_TYPE_OBJECT payload = Some (ObjectValue vo payload)"
| "FromTypedPayload vo _ payload = None"

text \<open>
  \<open>hasInstructionResults\<close>, \<open>hasInstructionResult\<close> and \<open>fromInstructionResult\<close>: a result
  is there once its slot no longer holds the placeholder.
\<close>

definition hasInstructionResults :: "SnapshotIterator \<Rightarrow> bool" where
  "hasInstructionResults it = (si_instructionResults it \<noteq> None)"

definition fromInstructionResult :: "SnapshotIterator \<Rightarrow> nat \<Rightarrow> Value option" where
  "fromInstructionResult it index =
     do {
       r \<leftarrow> si_instructionResults it;
       vs \<leftarrow> rr_results r;
       if index < length vs then Some (vs ! index) else None
     }"

definition hasInstructionResult :: "ValueOps \<Rightarrow> SnapshotIterator \<Rightarrow> nat \<Rightarrow> bool" where
  "hasInstructionResult vo it index =
     (case fromInstructionResult it index of
        None \<Rightarrow> False
      | Some v \<Rightarrow> v \<noteq> MagicValue_JS_ION_BAILOUT vo)"

text \<open>\<open>SnapshotIterator::allocationReadable\<close>\<close>

definition allocationReadable ::
  "ValueOps \<Rightarrow> SnapshotIterator \<Rightarrow> RValueAllocation \<Rightarrow> ReadMethod \<Rightarrow> bool" where
  "allocationReadable vo it alloc rm =
     (if needSideEffect alloc \<and> \<not> rm_has_AlwaysDefault rm \<and> \<not> hasInstructionResults it
      then False
      else (case mode alloc of
              DOUBLE_REG r \<Rightarrow> si_fmachine it r \<noteq> None
            | TYPED_REG t r \<Rightarrow> si_machine it r \<noteq> None
            | UNTYPED_REG_REG r r2 \<Rightarrow> si_machine it r \<noteq> None \<and> si_machine it r2 \<noteq> None
            | UNTYPED_REG_STACK r off2 \<Rightarrow> si_machine it r \<noteq> None
            | UNTYPED_STACK_REG off r2 \<Rightarrow> si_machine it r2 \<noteq> None
            | UNTYPED_STACK_STACK off off2 \<Rightarrow> True
            | RECOVER_INSTRUCTION i \<Rightarrow> hasInstructionResult vo it i
            | RI_WITH_DEFAULT_CST i i2 \<Rightarrow>
                rm_has_AlwaysDefault rm \<or> hasInstructionResult vo it i
            | _ \<Rightarrow> True))"

text \<open>\<open>SnapshotIterator::allocationValue\<close>\<close>

definition allocationValue ::
  "ValueOps \<Rightarrow> SnapshotIterator \<Rightarrow> SnapshotState \<Rightarrow> RValueAllocation \<Rightarrow> ReadMethod
     \<Rightarrow> Value option" where
  "allocationValue vo it s alloc rm =
     (case mode alloc of
        CONSTANT i \<Rightarrow> Some (ss_constants s i)
      | CST_UNDEFINED \<Rightarrow> Some (UndefinedValue vo)
      | CST_NULL \<Rightarrow> Some (NullValue vo)
      | DOUBLE_REG r \<Rightarrow> map_option (DoubleValue vo) (fromFloatRegister it s r)
      | FLOAT32_REG r \<Rightarrow>
          do {
            d \<leftarrow> fromFloatRegister it s r;
            let pun = pun_store_d d;
            Some (Float32Value vo (pun_load_f pun))
          }
      | FLOAT32_STACK off \<Rightarrow>
          Some (Float32Value vo (ReadFrameFloat32Slot (ss_mem s) (si_fp it) off))
      | TYPED_REG t r2 \<Rightarrow>
          do {
            payload \<leftarrow> fromRegister it s r2;
            FromTypedPayload vo t payload
          }
      | TYPED_STACK t off2 \<Rightarrow>
          (case t of
             JSVAL_TYPE_DOUBLE \<Rightarrow>
               Some (DoubleValue vo (ReadFrameDoubleSlot (ss_mem s) (si_fp it) off2))
           | JSVAL_TYPE_INT32 \<Rightarrow>
               Some (Int32Value vo (ReadFrameInt32Slot (ss_mem s) (si_fp it) off2))
           | JSVAL_TYPE_BOOLEAN \<Rightarrow>
               Some (BooleanValue vo (ReadFrameBooleanSlot (ss_mem s) (si_fp it) off2))
           | JSVAL_TYPE_STRING \<Rightarrow> Some (StringValue vo (fromStack it s off2))
           | JSVAL_TYPE_SYMBOL \<Rightarrow> Some (SymbolValue vo (fromStack it s off2))
           | JSVAL_TYPE_OBJECT \<Rightarrow> Some (ObjectValue vo (fromStack it s off2))
           | _ \<Rightarrow> None)
      | UNTYPED_REG_REG r r2 \<Rightarrow>
          do {
            tag \<leftarrow> fromRegister it s r;
            word \<leftarrow> fromRegister it s r2;
            Some (IMPL_TO_JSVAL \<lparr> s_tag = tag, s_payload = word \<rparr>)
          }
      | UNTYPED_REG_STACK r off2 \<Rightarrow>
          do {
            tag \<leftarrow> fromRegister it s r;
            Some (IMPL_TO_JSVAL \<lparr> s_tag = tag, s_payload = fromStack it s off2 \<rparr>)
          }
      | UNTYPED_STACK_REG off r2 \<Rightarrow>
          do {
            word \<leftarrow> fromRegister it s r2;
            Some (IMPL_TO_JSVAL \<lparr> s_tag = fromStack it s off, s_payload = word \<rparr>)
          }
      | UNTYPED_STACK_STACK off off2 \<Rightarrow>
          Some (IMPL_TO_JSVAL \<lparr> s_tag = fromStack it s off, s_payload = fromStack it s off2 \<rparr>)
      | RECOVER_INSTRUCTION i \<Rightarrow> fromInstructionResult it i
      | RI_WITH_DEFAULT_CST i i2 \<Rightarrow>
          (if rm_has_Normal rm \<and> hasInstructionResult vo it i then fromInstructionResult it i
           else Some (ss_constants s i2))
      | INVALID \<Rightarrow> None)"

text \<open>
  \<open>SnapshotIterator::writeAllocationValuePayload\<close>: on the two-word encoding the payload
  of \<open>v\<close> is the low word of its bits.
\<close>

definition writeAllocationValuePayload ::
  "SnapshotIterator \<Rightarrow> SnapshotState \<Rightarrow> RValueAllocation \<Rightarrow> Value \<Rightarrow> SnapshotState option" where
  "writeAllocationValuePayload it s alloc v =
     (let payload = s_payload (JSVAL_TO_IMPL v) in
      case mode alloc of
        CONSTANT i \<Rightarrow> Some (s\<lparr> ss_constants := (ss_constants s)(i := v) \<rparr>)
      | CST_UNDEFINED \<Rightarrow> None
      | CST_NULL \<Rightarrow> None
      | DOUBLE_REG r \<Rightarrow> None
      | FLOAT32_REG r \<Rightarrow> None
      | FLOAT32_STACK off \<Rightarrow> None
      | TYPED_REG t r2 \<Rightarrow>
          map_option (\<lambda>loc. s\<lparr> ss_mem := (ss_mem s)(loc := payload) \<rparr>) (si_machine it r2)
      | TYPED_STACK t off2 \<Rightarrow>
          (if t = JSVAL_TYPE_STRING \<or> t = JSVAL_TYPE_SYMBOL \<or> t = JSVAL_TYPE_OBJECT
           then Some (s\<lparr> ss_mem := WriteFrameSlot (ss_mem s) (si_fp it) off2 payload \<rparr>)
           else None)
      | UNTYPED_REG_REG r r2 \<Rightarrow>
          map_option (\<lambda>loc. s\<lparr> ss_mem := (ss_mem s)(loc := payload) \<rparr>) (si_machine it r2)
      | UNTYPED_STACK_REG off r2 \<Rightarrow>
          map_option (\<lambda>loc. s\<lparr> ss_mem := (ss_mem s)(loc := payload) \<rparr>) (si_machine it r2)
      | UNTYPED_REG_STACK r off2 \<Rightarrow>
          Some (s\<lparr> ss_mem := WriteFrameSlot (ss_mem s) (si_fp it) off2 payload \<rparr>)
      | UNTYPED_STACK_STACK off off2 \<Rightarrow>
          Some (s\<lparr> ss_mem := WriteFrameSlot (ss_mem s) (si_fp it) off2 payload \<rparr>)
      | RECOVER_INSTRUCTION i \<Rightarrow> None
      | RI_WITH_DEFAULT_CST i i2 \<Rightarrow> Some (s\<lparr> ss_constants := (ss_constants s)(i2 := v) \<rparr>)
      | INVALID \<Rightarrow> None)"

text \<open>
  \<open>SnapshotIterator::traceAllocation\<close> on the allocation just read. The result is the new
  state and the value handed to the collector, if one was.
\<close>

definition traceAllocation ::
  "JSTracer \<Rightarrow> ValueOps \<Rightarrow> SnapshotIterator \<Rightarrow> RValueAllocation \<Rightarrow> SnapshotState
     \<Rightarrow> (SnapshotState \<times> Value option) option" where
  "traceAllocation trc vo it alloc s =
     (if \<not> allocationReadable vo it alloc RM_AlwaysDefault then Some (s, None)
      else do {
        v \<leftarrow> allocationValue vo it s alloc RM_AlwaysDefault;
        if \<not> isMarkable vo v then Some (s, None)
        else (let v' = markValue trc v
              in if v' \<noteq> v
                 then map_option (\<lambda>s'. (s', Some v)) (writeAllocationValuePayload it s alloc v')
                 else Some (s, Some v))
      })"

section \<open>Recover results: evaluation once, then the cache\<close>

text \<open>
  Modelled from the spec: the bodies of the recover instructions (\<open>RInstruction::recover\<close>)
  and the activation's registry of results (\<open>maybeIonFrameRecovery\<close>,
  \<open>registerIonFrameRecovery\<close>, \<open>removeIonFrameRecovery\<close>) are not among the sources. A
  recover instruction is "a bytecode-level recipe for recomputing a value": here a
  function from the results so far to its value, \<open>None\<close> when it fails; evaluating it
  stores its value with \<open>storeInstructionResult\<close>. The registry is the "per-activation
  bailout recovery map (frame to memoized recover-table results)": a list of results
  records, looked up by frame pointer.
\<close>

definition maybeIonFrameRecovery ::
  "RInstructionResults list \<Rightarrow> addr \<Rightarrow> RInstructionResults option" where
  "maybeIonFrameRecovery reg fptr = find (\<lambda>r. rr_fp r = fptr) reg"

definition registerIonFrameRecovery ::
  "RInstructionResults list \<Rightarrow> RInstructionResults \<Rightarrow> RInstructionResults list" where
  "registerIonFrameRecovery reg r = reg @ [r]"

definition removeIonFrameRecovery :: "RInstructionResults list \<Rightarrow> addr \<Rightarrow> RInstructionResults list"
  where
  "removeIonFrameRecovery reg fptr = filter (\<lambda>r. rr_fp r \<noteq> fptr) reg"

text \<open>
  The pointer \<open>results\<close> of the source points into the registry: a write through it is a
  write to the registered record of that frame.
\<close>

definition updateIonFrameRecovery ::
  "RInstructionResults list \<Rightarrow> RInstructionResults \<Rightarrow> RInstructionResults list" where
  "updateIonFrameRecovery reg r = map (\<lambda>x. if rr_fp x = rr_fp r then r else x) reg"

text \<open>
  The state of recovery: the registry of the activation, and two counters kept for the
  properties: how many times a recover instruction has been executed, and the slots
  written by \<open>storeInstructionResult\<close>, in order.
\<close>

record RecoverState =
  rs_ionRecovery :: "RInstructionResults list"
  rs_recoverCount :: nat
  rs_stores :: "nat list"

text \<open>
  What may fail by lack of memory or outside this unit: allocating a results vector,
  growing it by a number of entries, appending to the registry, and invalidating the
  artifact.
\<close>

record Resources =
  canMakeVector :: bool
  canGrowBy :: "nat \<Rightarrow> bool"
  canRegister :: bool
  canInvalidate :: bool

datatype Consequence = Fallback_Invalidate | Fallback_DoNothing

text \<open>\<open>MaybeReadFallback\<close>: the frame of the fallback (its \<open>jsFrame()\<close>) and the consequence.\<close>

record MaybeReadFallback =
  fb_frame_jsFrame :: addr
  fb_consequence :: Consequence

text \<open>
  \<open>RInstructionResults::RInstructionResults(JitFrameLayout *fp)\<close> and \<open>init\<close>. When
  \<open>init\<close> fails, \<open>results_\<close> has been assigned already: it is null if the vector could
  not be allocated, and the new, empty vector if the vector could not grow.
\<close>

definition RInstructionResults_ctor :: "addr \<Rightarrow> RInstructionResults" where
  "RInstructionResults_ctor fptr =
     \<lparr> rr_results = None, rr_fp = fptr, rr_initialized = False \<rparr>"

definition RInstructionResults_init ::
  "ValueOps \<Rightarrow> Resources \<Rightarrow> nat \<Rightarrow> RInstructionResults \<Rightarrow> bool \<times> RInstructionResults" where
  "RInstructionResults_init vo res numResults r =
     (if numResults \<noteq> 0
      then (if \<not> canMakeVector res then (False, r\<lparr> rr_results := None \<rparr>)
            else if \<not> canGrowBy res numResults then (False, r\<lparr> rr_results := Some [] \<rparr>)
            else (True, r\<lparr> rr_results := Some (replicate numResults (MagicValue_JS_ION_BAILOUT vo)),
                           rr_initialized := True \<rparr>))
      else (True, r\<lparr> rr_initialized := True \<rparr>))"

text \<open>
  \<open>SnapshotIterator::storeInstructionResult\<close>: the slot is the one of the instruction just
  read. Without a vector, or outside it, there is nothing to write to.
\<close>

definition storeInstructionResult ::
  "nat \<Rightarrow> Value \<Rightarrow> RInstructionResults \<Rightarrow> RInstructionResults option" where
  "storeInstructionResult numInstructionsRead v r =
     (let currIns = numInstructionsRead - 1 in
      case rr_results r of
        None \<Rightarrow> None
      | Some vs \<Rightarrow> if currIns < length vs then Some (r\<lparr> rr_results := Some (vs[currIns := v]) \<rparr>)
                   else None)"

text \<open>
  The loop of \<open>computeInstructionResults\<close>: while the reader has more instructions
  (\<open>numInstructionsRead < numInstructions\<close>), a resume point is skipped and any other
  instruction is recovered; then the reader moves on. The result is whether every
  recovery succeeded (\<open>None\<close>: the run ends in an invalid write).
\<close>

function computeLoop ::
  "RInstruction list \<Rightarrow> nat \<Rightarrow> RInstructionResults \<Rightarrow> nat \<Rightarrow> nat list
     \<Rightarrow> (bool \<times> RInstructionResults \<times> nat \<times> nat list) option" where
  "computeLoop ins numRead r count stores =
     (if numRead < length ins
      then (case ins ! (numRead - 1) of
              RResumePoint \<Rightarrow> computeLoop ins (numRead + 1) r count stores
            | RRecover f \<Rightarrow>
                (case rr_results r of
                   None \<Rightarrow> None
                 | Some vs \<Rightarrow>
                     (case f vs of
                        None \<Rightarrow> Some (False, r, count + 1, stores)
                      | Some v \<Rightarrow>
                          (case storeInstructionResult numRead v r of
                             None \<Rightarrow> None
                           | Some r' \<Rightarrow>
                               computeLoop ins (numRead + 1) r' (count + 1)
                                 (stores @ [numRead - 1])))))
      else Some (True, r, count, stores))"
  by pat_completeness auto
termination
  by (relation "measure (\<lambda>(ins, numRead, r, count, stores). length ins - numRead)") auto

text \<open>
  \<open>SnapshotIterator::computeInstructionResults\<close> on the results record \<open>r\<close>. The number
  of results is \<open>numInstructions() - 1\<close> in \<open>size_t\<close>: for an empty table (which no reader
  yields) it wraps around.
\<close>

definition computeInstructionResults ::
  "ValueOps \<Rightarrow> Resources \<Rightarrow> SnapshotIterator \<Rightarrow> RInstructionResults \<Rightarrow> nat \<Rightarrow> nat list
     \<Rightarrow> (bool \<times> RInstructionResults \<times> nat \<times> nat list) option" where
  "computeInstructionResults vo res it r count stores =
     (let numResults = (if si_instructions it = [] then 2 ^ 32 - 1
                        else length (si_instructions it) - 1) in
      if \<not> rr_initialized r
      then (case RInstructionResults_init vo res numResults r of
              (ok, r1) \<Rightarrow>
                if \<not> ok then Some (False, r1, count, stores)
                else if numResults = 0 then Some (True, r1, count, stores)
                else computeLoop (si_instructions it) (si_numInstructionsRead it) r1 count stores)
      else Some (True, r, count, stores))"

text \<open>
  \<open>SnapshotIterator::initInstructionResults\<close>. The iterator \<open>fresh\<close> is the one the source
  constructs on the fallback's frame (\<open>SnapshotIterator s(*fallback.frame)\<close>), positioned
  at the beginning of the snapshot. The result is the returned boolean, the iterator
  (with \<open>instructionResults_\<close> set on success) and the state.
\<close>

definition initInstructionResults ::
  "ValueOps \<Rightarrow> Resources \<Rightarrow> MaybeReadFallback \<Rightarrow> SnapshotIterator \<Rightarrow> SnapshotIterator
     \<Rightarrow> RecoverState \<Rightarrow> (bool \<times> SnapshotIterator \<times> RecoverState) option" where
  "initInstructionResults vo res fallback fresh it s =
     (if length (si_instructions it) = 1 then Some (True, it, s)
      else
        (let fptr = fb_frame_jsFrame fallback in
         case maybeIonFrameRecovery (rs_ionRecovery s) fptr of
           Some results \<Rightarrow> Some (True, it\<lparr> si_instructionResults := Some results \<rparr>, s)
         | None \<Rightarrow>
             if fb_consequence fallback = Fallback_Invalidate \<and> \<not> canInvalidate res
             then Some (False, it, s)
             else if \<not> canRegister res then Some (False, it, s)
             else
               (let tmp = RInstructionResults_ctor fptr;
                    reg1 = registerIonFrameRecovery (rs_ionRecovery s) tmp
                in case maybeIonFrameRecovery reg1 fptr of
                     None \<Rightarrow> None
                   | Some results \<Rightarrow>
                       (case computeInstructionResults vo res fresh results
                               (rs_recoverCount s) (rs_stores s) of
                          None \<Rightarrow> None
                        | Some (ok, results', count', stores') \<Rightarrow>
                            if \<not> ok
                            then Some (False, it,
                                   s\<lparr> rs_ionRecovery := removeIonFrameRecovery reg1 fptr,
                                      rs_recoverCount := count', rs_stores := stores' \<rparr>)
                            else Some (True, it\<lparr> si_instructionResults := Some results' \<rparr>,
                                   s\<lparr> rs_ionRecovery := updateIonFrameRecovery reg1 results',
                                      rs_recoverCount := count', rs_stores := stores' \<rparr>)))))"



section \<open>Where a torn value lives\<close>

text \<open>
  The location an allocation of a safepoint denotes: the address that \<open>ReadAllocation\<close>
  reads and \<open>WriteAllocation\<close> writes, by the same three cases.
\<close>

fun allocationAddress ::
  "Heap \<Rightarrow> FrameLayoutSizes \<Rightarrow> JitFrameIterator \<Rightarrow> Stack \<Rightarrow> LAllocation \<Rightarrow> addr option" where
  "allocationAddress h sz frame st (GeneralReg reg) =
     do { machine \<leftarrow> machineState h st frame; machine reg }"
| "allocationAddress h sz frame st (StackSlot slot) =
     map_option (\<lambda>layout. slotRef layout slot) (jsFrame frame)"
| "allocationAddress h sz frame st (Argument index) =
     map_option (\<lambda>layout. argv sz layout + int index) (jsFrame frame)"

text \<open>
  The locations of the tag and of the payload of an untyped allocation of a snapshot, by
  its mode: a register is where the machine state has it, a stack offset is that far below
  the frame pointer.
\<close>

fun untypedLocations :: "SnapshotIterator \<Rightarrow> RValueAllocationMode \<Rightarrow> (addr \<times> addr) option" where
  "untypedLocations it (UNTYPED_REG_REG r r2) =
     do { ta \<leftarrow> si_machine it r; pa \<leftarrow> si_machine it r2; Some (ta, pa) }"
| "untypedLocations it (UNTYPED_REG_STACK r off2) =
     do { ta \<leftarrow> si_machine it r; Some (ta, si_fp it + OffsetOfFrameSlot off2) }"
| "untypedLocations it (UNTYPED_STACK_REG off r2) =
     do { pa \<leftarrow> si_machine it r2; Some (si_fp it + OffsetOfFrameSlot off, pa) }"
| "untypedLocations it (UNTYPED_STACK_STACK off off2) =
     Some (si_fp it + OffsetOfFrameSlot off, si_fp it + OffsetOfFrameSlot off2)"
| "untypedLocations it _ = None"

section \<open>Concrete frames, scripts and heaps for the examples\<close>

definition example_sizes :: FrameLayoutSizes where
  "example_sizes = \<lparr> EntryFrameLayout_Size = 8, JitFrameLayout_Size = 16,
      BaselineStubFrameLayout_Size = 16, RectifierFrameLayout_Size = 16,
      IonUnwoundRectifierFrameLayout_Size = 20, ExitFrameLayout_Size = 8 \<rparr>"

definition example_frame :: "FrameType \<Rightarrow> nat \<Rightarrow> FrameLayout" where
  "example_frame t n = \<lparr> returnAddress = 4096, prevType = t, prevFrameLocalSize = n,
      calleeToken = CalleeToken_Script 1, numActualArgs = 0 \<rparr>"

definition example_iterator ::
  "FrameType \<Rightarrow> ExecutionMode \<Rightarrow> addr \<Rightarrow> addr \<Rightarrow> JitFrameIterator" where
  "example_iterator t m a ra = \<lparr> it_current = a, it_type = t, it_returnAddressToFp = ra,
      it_frameSize = 0, it_mode = m, it_cachedSafepointIndex = None,
      it_activation = \<lparr> bailoutData = None \<rparr> \<rparr>"

definition example_baselineScript :: BaselineScript where
  "example_baselineScript = \<lparr> bs_method_raw = 8192, bs_prologueOffset = 16,
      bs_postDebugPrologueOffset = 48,
      bs_maybeICEntryFromReturnAddress =
        (\<lambda>a. if a = 8300 then Some \<lparr> ic_returnOffset = 108, ic_pcOffset = 7 \<rparr> else None),
      bs_pcForReturnAddress = (\<lambda>a. 500 + (a - 8192) div 4),
      bs_maybeNativeCodeForPC = (\<lambda>pc. 8192 + 4 * (pc - 500)) \<rparr>"

definition example_script :: "IonScriptPtr option \<Rightarrow> IonScriptPtr option \<Rightarrow> JSScript" where
  "example_script ion par = \<lparr> js_code = 500, js_main = 510,
      js_trynotes = Some [\<lparr> tn_kind = JSTRY_CATCH, tn_stackDepth = 2, tn_start = 10,
                           tn_length = 10 \<rparr>],
      js_nfixed = 3, js_warmUpCounter = 1000, js_baselineScript = example_baselineScript,
      js_ionScript = ion, js_parallelIonScript = par \<rparr>"

definition empty_safepoint :: Safepoint where
  "empty_safepoint = \<lparr> sp_gcSlots = [], sp_valueSlots = [], sp_allGprSpills = [],
      sp_gcSpills = [], sp_valueSpills = [], sp_nunboxSlots = [] \<rparr>"

definition example_safepoint :: Safepoint where
  "example_safepoint = \<lparr> sp_gcSlots = [8], sp_valueSlots = [16], sp_allGprSpills = [1],
      sp_gcSpills = [], sp_valueSpills = [],
      sp_nunboxSlots = [(GeneralReg 1, StackSlot 28)] \<rparr>"

definition example_ionScript :: "addr \<Rightarrow> Safepoint \<Rightarrow> IonScript" where
  "example_ionScript base sp = \<lparr> is_containsReturnAddress = (\<lambda>a. base \<le> a \<and> a \<le> base + 1000),
      is_getSafepointIndex = (\<lambda>a. 0), is_safepoint = (\<lambda>i. sp), is_frameSize = 32 \<rparr>"

definition example_baselineFrame :: "addr \<Rightarrow> addr option \<Rightarrow> BaselineFrame" where
  "example_baselineFrame override osr = \<lparr> bf_script = 1, bf_unwoundScopeOverridePc = override,
      bf_debugModeOSRInfo_pc = osr, bf_numValueSlots = 5, bf_isDebuggee = False,
      bf_isDebuggerHandlingException = False, bf_returnValue = None \<rparr>"

text \<open>
  A heap with one script, the artifact 5 (code from 4000, with a safepoint that lists
  roots) and the artifact 6 (code from 20000, with an empty safepoint). The code before
  the return address 4096 says that the artifact of that call site is 5.
\<close>

definition example_heap :: "JSScript \<Rightarrow> BaselineFrame \<Rightarrow> Heap" where
  "example_heap scr bf = \<lparr> scripts = (\<lambda>p. scr), nonLazyScript = (\<lambda>f. 1),
      ionScripts = (\<lambda>p. if p = 5 then example_ionScript 4000 example_safepoint
                         else example_ionScript 20000 empty_safepoint),
      baselineFrames = (\<lambda>a. bf), int32At = (\<lambda>a. if a = 4092 then - 96 else 0),
      GetPointer = (\<lambda>a. if a = 4000 then 5 else 0) \<rparr>"

text \<open>A context of a parallel worker whose activation has a bailout in progress.\<close>

definition example_parallel_bailout_cx :: ThreadSafeContext where
  "example_parallel_bailout_cx = \<lparr> isForkJoinContext = True, jitTop = 900,
      activation = \<lparr> bailoutData = Some \<lparr> bfi_fp = 1000, bfi_topFrameSize = 32,
         bfi_ionScript = 5, bfi_machineState = Map.empty \<rparr> \<rparr> \<rparr>"

text \<open>
  A collector that relocates the object of one value (payload \<open>0x1000\<close> to \<open>0x2000\<close>, the
  tag unchanged) and leaves every other root where it is; and a frame at 1000 whose
  register 1 (spilled at 964) holds that value's tag and whose stack slot 28 (at 972)
  holds its payload.
\<close>

definition example_tracer :: JSTracer where
  "example_tracer = \<lparr> markValue = (\<lambda>v. if v = 0xFFFFFF8800001000 then 0xFFFFFF8800002000 else v),
      markGCThing = (\<lambda>p. p), markObject = (\<lambda>f. f), markScript = (\<lambda>s. s) \<rparr>"

definition example_markState :: MarkState where
  "example_markState = \<lparr> ms_stack = (\<lambda>a. example_frame JitFrame_Exit 24),
      ms_mem = (\<lambda>a. if a = 964 then 0xFFFFFF88 else if a = 972 then 0x1000 else 0),
      ms_log = [] \<rparr>"

text \<open>
  A stack of an exit frame at 1000, called from a baseline frame at 1032, which was
  entered from the entry frame.
\<close>

definition example_stack2 :: Stack where
  "example_stack2 = (\<lambda>a. if a = 1000 then example_frame JitFrame_BaselineJS 24
                          else example_frame JitFrame_Entry 40)"

definition example_rfe :: ResumeFromException where
  "example_rfe = \<lparr> rfe_framePointer = 0, rfe_stackPointer = 0, rfe_target = 0,
                   rfe_kind = RESUME_CATCH, rfe_exception = 0 \<rparr>"

definition example_cx :: ThreadSafeContext where
  "example_cx = \<lparr> isForkJoinContext = False, jitTop = 1000,
                  activation = \<lparr> bailoutData = None \<rparr> \<rparr>"

text \<open>
  Value constructors that keep the bits they are given (a float32 in the low word), with
  every non-zero value markable; and a snapshot iterator on the frame at 1000 with the
  general register 1 spilled at 964 and the floating-point register 0 spilled at 2000.
\<close>

definition example_valueOps :: ValueOps where
  "example_valueOps = \<lparr> DoubleValue = (\<lambda>d. d), Float32Value = (\<lambda>f. ucast f),
      Int32Value = (\<lambda>i. ucast i), BooleanValue = (\<lambda>b. if b then 1 else 0),
      StringValue = (\<lambda>p. ucast p), SymbolValue = (\<lambda>p. ucast p), ObjectValue = (\<lambda>p. ucast p),
      UndefinedValue = 0, NullValue = 0, MagicValue_JS_ION_BAILOUT = 0xFFFFFF8400000006,
      isMarkable = (\<lambda>v. v \<noteq> 0) \<rparr>"

definition example_snapshotIterator :: "RInstruction list \<Rightarrow> SnapshotIterator" where
  "example_snapshotIterator ins = \<lparr> si_fp = 1000, si_machine = [1 \<mapsto> 964],
      si_fmachine = [0 \<mapsto> 2000], si_instructionResults = None, si_instructions = ins,
      si_numInstructionsRead = 1 \<rparr>"

definition example_snapshotState :: SnapshotState where
  "example_snapshotState = \<lparr> ss_mem = (\<lambda>a. if a = 964 then 0xFFFFFF88 else if a = 972 then 0x1000
                                              else if a = 2000 then 0x3FC00000
                                              else if a = 2004 then 0xDEADBEEF else 0),
      ss_constants = (\<lambda>i. 0) \<rparr>"

text \<open>
  A recover table of two recover instructions (the second reads the result of the first)
  and two resume points, a fallback on the frame at 1000, resources that never fail and
  resources that always do, and the state with nothing registered.
\<close>

definition example_instructions :: "RInstruction list" where
  "example_instructions =
     [RRecover (\<lambda>vs. Some 7), RResumePoint, RRecover (\<lambda>vs. Some (vs ! 0 + 1)), RResumePoint]"

definition example_fallback :: MaybeReadFallback where
  "example_fallback = \<lparr> fb_frame_jsFrame = 1000, fb_consequence = Fallback_DoNothing \<rparr>"

definition example_resources :: "bool \<Rightarrow> Resources" where
  "example_resources b = \<lparr> canMakeVector = b, canGrowBy = (\<lambda>n. b), canRegister = b,
                           canInvalidate = b \<rparr>"

definition example_recoverState :: RecoverState where
  "example_recoverState = \<lparr> rs_ionRecovery = [], rs_recoverCount = 0, rs_stores = [] \<rparr>"

definition example_results :: RInstructionResults where
  "example_results = \<lparr> rr_results = Some [7, 0xFFFFFF8400000006, 8], rr_fp = 1000,
                       rr_initialized = True \<rparr>"

text \<open>
  Collaborators for the catch scenario: the pending exception is the value 99, which is
  the marker of a closing generator if \<open>closing\<close>; reading it fails if \<open>fails\<close>; the
  debugger's unwind hook answers \<open>status\<close> and its epilogue asks for a forced return. The
  state has a pending exception; it propagates a forced return if \<open>forced\<close>, its
  compartment is a debuggee if \<open>debuggee\<close>, and the return value of its frame is \<open>rv\<close>.
\<close>

definition example_env :: "bool \<Rightarrow> bool \<Rightarrow> JSTrapStatus \<Rightarrow> Collaborators" where
  "example_env closing fails status =
     \<lparr> env_getPendingException = (\<lambda>cx. if fails then None else Some 99),
       env_isGeneratorClosing = (\<lambda>v. closing),
       env_onExceptionUnwind = (\<lambda>cx bf. (status, cx, bf)),
       env_DebugEpilogue = (\<lambda>cx bf pc ok. (True, cx, bf)),
       env_UnwindScopeToTryPc = (\<lambda>s tn. 520),
       env_UndefinedValue = 0,
       env_FramePointerOffset = 8,
       env_BaselineFrame_Size = 40 \<rparr>"

definition example_ehState :: "bool \<Rightarrow> bool \<Rightarrow> Value option \<Rightarrow> EHState" where
  "example_ehState forced debuggee rv =
     \<lparr> eh_heap = example_heap (example_script None None)
                   ((example_baselineFrame 0 None)\<lparr> bf_returnValue := rv \<rparr>),
       eh_cx = \<lparr> cx_isExceptionPending = True, cx_isPropagatingForcedReturn = forced,
                 cx_isDebuggee = debuggee, cx_calls = [] \<rparr>,
       eh_rfe = example_rfe\<lparr> rfe_kind := RESUME_ENTRY_FRAME \<rparr>,
       eh_unwoundScopeToPc = 0,
       eh_calledDebugEpilogue = False \<rparr>"

text \<open>A recover table whose second recover instruction fails.\<close>

definition example_failing_instructions :: "RInstruction list" where
  "example_failing_instructions =
     [RRecover (\<lambda>vs. Some 7), RResumePoint, RRecover (\<lambda>vs. None), RResumePoint]"

section \<open>Properties\<close>

text \<open>The defining equations of the concrete examples, for their evaluation.\<close>

lemmas example_defs = example_heap_def example_script_def example_baselineFrame_def
  example_iterator_def example_frame_def example_baselineScript_def example_sizes_def
  example_ionScript_def example_safepoint_def empty_safepoint_def example_tracer_def
  example_markState_def example_stack2_def example_rfe_def example_cx_def
  example_valueOps_def example_snapshotIterator_def example_snapshotState_def
  example_instructions_def example_fallback_def example_resources_def
  example_recoverState_def example_results_def example_env_def example_ehState_def
  example_failing_instructions_def

text \<open>The defining equations of the iterator's accessors.\<close>

lemmas iter_defs = checkInvalidation_def ionScript_def ionScriptFromCalleeToken_def
  safepoint_def spillBase_def machineState_def jsFrame_def script_def isBailoutJS_def
  isBaselineJS_def isIonJS_def isEntry_def isScripted_def fp_def returnAddressToFp_def
  current_def slotRef_def argv_def

subsection \<open>The bytecode position of a baseline frame\<close>

text \<open>
  C3: for every baseline frame the bytecode position stored through \<open>pcRes\<close> is resolved
  in this order, the first match winning: the override pc of the unwound scope; the pc
  recorded by debug mode on-stack replacement; the script's first pc when the return
  address is the prologue entry address or the address after the debug prologue; the pc
  of the inline-cache entry of the return address; the PC-mapping lookup.
\<close>

theorem baselineScriptAndPc_order:
  fixes h st it scriptRes
  defines "r \<equiv> baselineScriptAndPc h st it scriptRes True"
    and "scr \<equiv> script h st it"
  defines "so \<equiv> (if scriptRes then Some scr else None)"
    and "bs \<equiv> js_baselineScript (scripts h scr)"
    and "overridePc \<equiv> bf_unwoundScopeOverridePc (baselineFrame h it)"
    and "osr \<equiv> bf_debugModeOSRInfo_pc (baselineFrame h it)"
    and "retAddr \<equiv> returnAddressToFp it"
  shows "(overridePc \<noteq> 0 \<longrightarrow> r = Some (so, Some overridePc)) \<and>
         (overridePc = 0 \<longrightarrow> (\<forall>p. osr = Some p \<longrightarrow> r = Some (so, Some p))) \<and>
         (overridePc = 0 \<and> osr = None \<and>
            (retAddr = prologueEntryAddr bs \<or> retAddr = postDebugPrologueAddr bs)
            \<longrightarrow> r = Some (so, Some (js_code (scripts h scr)))) \<and>
         (overridePc = 0 \<and> osr = None \<and>
            retAddr \<noteq> prologueEntryAddr bs \<and> retAddr \<noteq> postDebugPrologueAddr bs
            \<longrightarrow> (\<forall>e. bs_maybeICEntryFromReturnAddress bs retAddr = Some e
                    \<longrightarrow> r = Some (so, Some (ICEntry_pc e (scripts h scr))))) \<and>
         (overridePc = 0 \<and> osr = None \<and>
            retAddr \<noteq> prologueEntryAddr bs \<and> retAddr \<noteq> postDebugPrologueAddr bs \<and>
            bs_maybeICEntryFromReturnAddress bs retAddr = None
            \<longrightarrow> r = Some (so, Some (bs_pcForReturnAddress bs retAddr)))"
  unfolding r_def so_def bs_def overridePc_def osr_def retAddr_def scr_def
  by (simp add: baselineScriptAndPc_def Let_def)

theorem baselineScriptAndPc_order_witness:
  "baselineScriptAndPc (example_heap (example_script None None) (example_baselineFrame 777 (Some 600)))
     (\<lambda>a. example_frame JitFrame_Entry 24)
     (example_iterator JitFrame_BaselineJS SequentialExecution 1000 4096) True True
     = Some (Some 1, Some 777) \<and>
   baselineScriptAndPc (example_heap (example_script None None) (example_baselineFrame 0 (Some 600)))
     (\<lambda>a. example_frame JitFrame_Entry 24)
     (example_iterator JitFrame_BaselineJS SequentialExecution 1000 4096) True True
     = Some (Some 1, Some 600) \<and>
   baselineScriptAndPc (example_heap (example_script None None) (example_baselineFrame 0 None))
     (\<lambda>a. example_frame JitFrame_Entry 24)
     (example_iterator JitFrame_BaselineJS SequentialExecution 1000 8208) True True
     = Some (Some 1, Some 500) \<and>
   baselineScriptAndPc (example_heap (example_script None None) (example_baselineFrame 0 None))
     (\<lambda>a. example_frame JitFrame_Entry 24)
     (example_iterator JitFrame_BaselineJS SequentialExecution 1000 8300) True True
     = Some (Some 1, Some 507) \<and>
   baselineScriptAndPc (example_heap (example_script None None) (example_baselineFrame 0 None))
     (\<lambda>a. example_frame JitFrame_Entry 24)
     (example_iterator JitFrame_BaselineJS SequentialExecution 1000 8400) True True
     = Some (Some 1, Some 552)"
  using
    baselineScriptAndPc_order [of
      "example_heap (example_script None None) (example_baselineFrame 777 (Some 600))"
      "example_iterator JitFrame_BaselineJS SequentialExecution 1000 4096"
      "\<lambda>a. example_frame JitFrame_Entry 24" True]
    baselineScriptAndPc_order [of
      "example_heap (example_script None None) (example_baselineFrame 0 (Some 600))"
      "example_iterator JitFrame_BaselineJS SequentialExecution 1000 4096"
      "\<lambda>a. example_frame JitFrame_Entry 24" True]
    baselineScriptAndPc_order [of
      "example_heap (example_script None None) (example_baselineFrame 0 None)"
      "example_iterator JitFrame_BaselineJS SequentialExecution 1000 8208"
      "\<lambda>a. example_frame JitFrame_Entry 24" True]
    baselineScriptAndPc_order [of
      "example_heap (example_script None None) (example_baselineFrame 0 None)"
      "example_iterator JitFrame_BaselineJS SequentialExecution 1000 8300"
      "\<lambda>a. example_frame JitFrame_Entry 24" True]
    baselineScriptAndPc_order [of
      "example_heap (example_script None None) (example_baselineFrame 0 None)"
      "example_iterator JitFrame_BaselineJS SequentialExecution 1000 8400"
      "\<lambda>a. example_frame JitFrame_Entry 24" True]
  by (simp add: example_defs script_def isBaselineJS_def baselineFrame_def fp_def
        returnAddressToFp_def prologueEntryAddr_def postDebugPrologueAddr_def ICEntry_pc_def)

subsection \<open>The step to the caller\<close>

text \<open>
  C6, as the source has it. A step to the caller fails only on a frame of type
  \<open>JitFrame_Unwound_BaselineStub\<close>, which has no header size. Otherwise it clears the
  cached safepoint index and reads the predecessor's type from the descriptor stored in
  the current frame. If that type is the entry frame, the new type is \<open>JitFrame_Entry\<close> and
  the frame address is left as it is. If not, the new address is the current address plus
  the header size of the current frame type (of \<open>JitFrame_IonJS\<close> when the current frame
  is a fake exit frame) plus the locals size of the descriptor, and the new type is the
  stored type with \<open>Unwound_IonJS\<close>, \<open>Unwound_BaselineJS\<close> and \<open>Unwound_BaselineStub\<close>
  translated to the plain types; \<open>Unwound_Rectifier\<close> stays as it is.
\<close>

theorem operator_inc_step:
  "(operator_inc sz isFake st it = None \<longleftrightarrow>
      prevType (current st it) \<noteq> JitFrame_Entry \<and>
      it_type it = JitFrame_Unwound_BaselineStub) \<and>
   (\<forall>it'. operator_inc sz isFake st it = Some it' \<longrightarrow>
      it_cachedSafepointIndex it' = None \<and>
      (if prevType (current st it) = JitFrame_Entry
       then it_type it' = JitFrame_Entry \<and> it_current it' = it_current it
       else (\<exists>header.
               (if isFake st (it\<lparr> it_frameSize := prevFrameLocalSize (current st it),
                                   it_cachedSafepointIndex := None \<rparr>)
                then SizeOfFramePrefix sz JitFrame_IonJS
                else SizeOfFramePrefix sz (it_type it)) = Some header \<and>
               it_current it' =
                 it_current it + int (header + prevFrameLocalSize (current st it))) \<and>
            it_type it' =
              (case prevType (current st it) of
                 JitFrame_Unwound_IonJS \<Rightarrow> JitFrame_IonJS
               | JitFrame_Unwound_BaselineJS \<Rightarrow> JitFrame_BaselineJS
               | JitFrame_Unwound_BaselineStub \<Rightarrow> JitFrame_BaselineStub
               | t \<Rightarrow> t)))"
proof -
  have total: "operator_inc sz isFake st it = None \<longleftrightarrow>
      prevType (current st it) \<noteq> JitFrame_Entry \<and>
      it_type it = JitFrame_Unwound_BaselineStub"
    by (cases "it_type it") (auto simp: operator_inc_def Let_def current_def prevFp_def)
  have step: "\<And>it'. operator_inc sz isFake st it = Some it' \<Longrightarrow>
      it_cachedSafepointIndex it' = None \<and>
      (if prevType (current st it) = JitFrame_Entry
       then it_type it' = JitFrame_Entry \<and> it_current it' = it_current it
       else (\<exists>header.
               (if isFake st (it\<lparr> it_frameSize := prevFrameLocalSize (current st it),
                                   it_cachedSafepointIndex := None \<rparr>)
                then SizeOfFramePrefix sz JitFrame_IonJS
                else SizeOfFramePrefix sz (it_type it)) = Some header \<and>
               it_current it' =
                 it_current it + int (header + prevFrameLocalSize (current st it))) \<and>
            it_type it' =
              (case prevType (current st it) of
                 JitFrame_Unwound_IonJS \<Rightarrow> JitFrame_IonJS
               | JitFrame_Unwound_BaselineJS \<Rightarrow> JitFrame_BaselineJS
               | JitFrame_Unwound_BaselineStub \<Rightarrow> JitFrame_BaselineStub
               | t \<Rightarrow> t))"
    by (auto simp: operator_inc_def Let_def current_def prevFp_def
             split: if_splits Option.bind_splits FrameType.splits)
  from total step show ?thesis by blast
qed

theorem operator_inc_step_witness:
  "\<exists>it'. operator_inc example_sizes (\<lambda>st it. False)
            (\<lambda>a. example_frame JitFrame_Unwound_IonJS 24)
            (example_iterator JitFrame_Exit SequentialExecution 1000 0
               \<lparr> it_cachedSafepointIndex := Some 3 \<rparr>) = Some it' \<and>
         it_cachedSafepointIndex it' = None \<and>
         it_type it' = JitFrame_IonJS \<and>
         it_current it' = 1032"
proof -
  let ?it = "example_iterator JitFrame_Exit SequentialExecution 1000 0
               \<lparr> it_cachedSafepointIndex := Some 3 \<rparr>"
  let ?st = "\<lambda>a::addr. example_frame JitFrame_Unwound_IonJS 24"
  note w = operator_inc_step [of example_sizes "\<lambda>st it. False" ?st ?it]
  from w obtain it' where s: "operator_inc example_sizes (\<lambda>st it. False) ?st ?it = Some it'"
    by (auto simp: example_defs current_def)
  from w s have "it_cachedSafepointIndex it' = None \<and> it_type it' = JitFrame_IonJS \<and>
                 it_current it' = 1032"
    by (auto simp: example_defs current_def)
  with s show ?thesis by blast
qed

text \<open>
  C6 as stated fails in three places. On a fake exit frame at 1000 whose descriptor says
  \<open>Unwound_Rectifier\<close> with 24 bytes of locals, the new type is \<open>Unwound_Rectifier\<close>, not
  \<open>Rectifier\<close>, and the new address is 1040, the header size of \<open>JitFrame_IonJS\<close> (16)
  having been used, not that of the current type \<open>JitFrame_Exit\<close> (8). On a baseline
  frame at 2000 whose descriptor says \<open>Entry\<close>, the address stays 2000: no predecessor
  address is computed.
\<close>

theorem operator_inc_counterexample:
  "prevType (example_frame JitFrame_Unwound_Rectifier 24) = JitFrame_Unwound_Rectifier \<and>
   operator_inc example_sizes (\<lambda>st it. True) (\<lambda>a. example_frame JitFrame_Unwound_Rectifier 24)
     (example_iterator JitFrame_Exit SequentialExecution 1000 0)
   = Some (example_iterator JitFrame_Unwound_Rectifier SequentialExecution 1040 4096
             \<lparr> it_frameSize := 24 \<rparr>) \<and>
   SizeOfFramePrefix example_sizes JitFrame_Exit = Some 8 \<and>
   operator_inc example_sizes (\<lambda>st it. False) (\<lambda>a. example_frame JitFrame_Entry 24)
     (example_iterator JitFrame_BaselineJS SequentialExecution 2000 0)
   = Some (example_iterator JitFrame_Entry SequentialExecution 2000 0 \<lparr> it_frameSize := 24 \<rparr>) \<and>
   SizeOfFramePrefix example_sizes JitFrame_BaselineJS = Some 16"
  by (simp add: operator_inc_def Let_def current_def prevFp_def example_defs)

subsection \<open>The entry frame and the resume stack pointer\<close>

lemma HandleException_loop_done:
  assumes major: "HandleException_loop sz isFake handleFrame s = Some r"
  shows "\<forall>s'. r = LoopDone s' \<longrightarrow> isEntry (he_iter s')"
  by (rule HandleException_loop.raw_induct
        [where P = "\<lambda>_ _ _ _ r. \<forall>s'. r = LoopDone s' \<longrightarrow> isEntry (he_iter s')", OF _ major])
     (auto split: if_splits prod.splits option.splits)

lemma HandleException_loop_at_entry:
  "isEntry (he_iter s) \<Longrightarrow> HandleException_loop sz isFake handleFrame s = Some (LoopDone s)"
  by (subst HandleException_loop.simps) simp

lemma HandleException_loop_last_step:
  assumes ne: "\<not> isEntry (he_iter s)"
    and hf: "handleFrame (he_cx s) (he_stack s) (he_iter s) (he_rfe s) = (cx', rfe', False)"
    and pe: "prevType (current (he_stack s) (he_iter s)) = JitFrame_Entry"
  shows "\<exists>s'. HandleException_loop sz isFake handleFrame s = Some (LoopDone s') \<and>
              isEntry (he_iter s') \<and> fp (he_iter s') = fp (he_iter s)"
proof -
  let ?it' = "(he_iter s)\<lparr> it_frameSize := prevFrameLocalSize (current (he_stack s) (he_iter s)),
                            it_cachedSafepointIndex := None,
                            it_type := JitFrame_Entry \<rparr>"
  have oi: "operator_inc sz isFake (he_stack s) (he_iter s) = Some ?it'"
    using pe by (simp add: operator_inc_def Let_def current_def)
  show ?thesis
  proof (cases "if isScripted (he_iter s) then jsFrame (he_iter s) else None")
    case None
    let ?s' = "s\<lparr> he_cx := cx', he_rfe := rfe', he_iter := ?it' \<rparr>"
    have "HandleException_loop sz isFake handleFrame s
            = HandleException_loop sz isFake handleFrame ?s'"
      using ne hf oi None by (subst HandleException_loop.simps) simp
    moreover have "isEntry (he_iter ?s')" by (simp add: isEntry_def)
    ultimately have "HandleException_loop sz isFake handleFrame s = Some (LoopDone ?s')"
      by (simp add: HandleException_loop_at_entry)
    then show ?thesis by (intro exI [of _ ?s']) (simp add: isEntry_def fp_def)
  next
    case (Some cur)
    let ?s' = "s\<lparr> he_cx := cx', he_rfe := rfe', he_iter := ?it',
                   he_stack := EnsureExitFrame (he_stack s) cur, he_jitTop := cur \<rparr>"
    have "HandleException_loop sz isFake handleFrame s
            = HandleException_loop sz isFake handleFrame ?s'"
      using ne hf oi Some by (subst HandleException_loop.simps) simp
    moreover have "isEntry (he_iter ?s')" by (simp add: isEntry_def)
    ultimately have "HandleException_loop sz isFake handleFrame s = Some (LoopDone ?s')"
      by (simp add: HandleException_loop_at_entry)
    then show ?thesis by (intro exI [of _ ?s']) (simp add: isEntry_def fp_def)
  qed
qed

text \<open>
  C10: when the descriptor stored in the current frame says that the predecessor is the
  entry frame, the step to the caller makes the iterator's type \<open>JitFrame_Entry\<close> and
  leaves its frame pointer where it is, on the last frame walked. The exception handler
  whose walk leaves such a frame ends its loop there, on the entry state with that same
  frame pointer; and whenever the handler's loop runs to the entry state, the resume
  stack pointer it returns is \<open>fp()\<close> of the iterator in that state.
\<close>

theorem entry_step_keeps_frame_pointer:
  "(prevType (current st it) = JitFrame_Entry \<longrightarrow>
      operator_inc sz isFake st it
        = Some (it\<lparr> it_frameSize := prevFrameLocalSize (current st it),
                     it_cachedSafepointIndex := None,
                     it_type := JitFrame_Entry \<rparr>) \<and>
      (\<forall>it'. operator_inc sz isFake st it = Some it' \<longrightarrow>
             isEntry it' \<and> fp it' = fp it)) \<and>
   (\<not> isEntry (he_iter s) \<and>
    handleFrame (he_cx s) (he_stack s) (he_iter s) (he_rfe s) = (cx', rfe', False) \<and>
    prevType (current (he_stack s) (he_iter s)) = JitFrame_Entry \<longrightarrow>
      (\<exists>s'. HandleException_loop sz isFake handleFrame s = Some (LoopDone s') \<and>
            isEntry (he_iter s') \<and> fp (he_iter s') = fp (he_iter s))) \<and>
   (\<forall>s'. HandleException sz isFake handleFrame tcx cx st rfe = Some (LoopDone s') \<longrightarrow>
      isEntry (he_iter s') \<and> rfe_stackPointer (he_rfe s') = fp (he_iter s'))"
proof -
  have a: "prevType (current st it) = JitFrame_Entry \<Longrightarrow>
      operator_inc sz isFake st it
        = Some (it\<lparr> it_frameSize := prevFrameLocalSize (current st it),
                     it_cachedSafepointIndex := None,
                     it_type := JitFrame_Entry \<rparr>)"
    by (simp add: operator_inc_def Let_def current_def)
  have b: "\<And>s'. HandleException sz isFake handleFrame tcx cx st rfe = Some (LoopDone s') \<Longrightarrow>
      isEntry (he_iter s') \<and> rfe_stackPointer (he_rfe s') = fp (he_iter s')"
  proof -
    fix s'
    assume h: "HandleException sz isFake handleFrame tcx cx st rfe = Some (LoopDone s')"
    then obtain s0 where
      l: "HandleException_loop sz isFake handleFrame
            \<lparr> he_cx = cx, he_stack = st, he_iter = JitFrameIterator_ctor tcx,
              he_rfe = rfe\<lparr> rfe_kind := RESUME_ENTRY_FRAME \<rparr>, he_jitTop = jitTop tcx \<rparr>
          = Some (LoopDone s0)"
      and e: "s' = s0\<lparr> he_rfe := (he_rfe s0)\<lparr> rfe_stackPointer := fp (he_iter s0) \<rparr> \<rparr>"
      by (auto simp: HandleException_def split: option.splits LoopResult.splits)
    from HandleException_loop_done [OF l] have "isEntry (he_iter s0)" by simp
    with e show "isEntry (he_iter s') \<and> rfe_stackPointer (he_rfe s') = fp (he_iter s')"
      by simp
  qed
  from a b HandleException_loop_last_step [of s handleFrame cx' rfe' sz isFake]
  show ?thesis by (auto simp: isEntry_def fp_def)
qed

theorem entry_step_keeps_frame_pointer_witness:
  "HandleException example_sizes (\<lambda>st it. False) (\<lambda>cx st it rfe. (cx, rfe, False))
     example_cx () example_stack2 example_rfe
   = Some (LoopDone \<lparr> he_cx = (), he_stack = example_stack2,
        he_iter = example_iterator JitFrame_Entry SequentialExecution 1032 4096
                    \<lparr> it_frameSize := 40 \<rparr>,
        he_rfe = example_rfe \<lparr> rfe_kind := RESUME_ENTRY_FRAME, rfe_stackPointer := 1032 \<rparr>,
        he_jitTop = 1032 \<rparr>) \<and>
   prevType (example_stack2 1032) = JitFrame_Entry \<and>
   operator_inc example_sizes (\<lambda>st it. False) example_stack2
     (example_iterator JitFrame_BaselineJS SequentialExecution 1032 4096 \<lparr> it_frameSize := 24 \<rparr>)
   = Some (example_iterator JitFrame_Entry SequentialExecution 1032 4096 \<lparr> it_frameSize := 40 \<rparr>) \<and>
   (\<exists>s'. HandleException_loop example_sizes (\<lambda>st it. False) (\<lambda>cx st it rfe. (cx, rfe, False))
           \<lparr> he_cx = (), he_stack = example_stack2,
             he_iter = example_iterator JitFrame_BaselineJS SequentialExecution 1032 4096
                         \<lparr> it_frameSize := 24 \<rparr>,
             he_rfe = example_rfe, he_jitTop = 1000 \<rparr> = Some (LoopDone s') \<and>
         isEntry (he_iter s') \<and> fp (he_iter s') = 1032)"
proof -
  let ?it = "example_iterator JitFrame_BaselineJS SequentialExecution 1032 4096
               \<lparr> it_frameSize := 24 \<rparr>"
  let ?s = "\<lparr> he_cx = (), he_stack = example_stack2, he_iter = ?it,
              he_rfe = example_rfe, he_jitTop = 1000 \<rparr>"
  let ?fin = "\<lparr> he_cx = (), he_stack = example_stack2,
        he_iter = example_iterator JitFrame_Entry SequentialExecution 1032 4096
                    \<lparr> it_frameSize := 40 \<rparr>,
        he_rfe = example_rfe \<lparr> rfe_kind := RESUME_ENTRY_FRAME, rfe_stackPointer := 1032 \<rparr>,
        he_jitTop = 1032 \<rparr>"
  note inst = entry_step_keeps_frame_pointer
         [where st = example_stack2 and it = ?it and sz = example_sizes
            and isFake = "\<lambda>st it. False" and s = ?s
            and handleFrame = "\<lambda>cx st it rfe. (cx, rfe, False)" and cx' = "()"
            and rfe' = example_rfe and tcx = example_cx and cx = "()" and rfe = example_rfe]
  have p: "prevType (current example_stack2 ?it) = JitFrame_Entry"
    by (simp add: example_defs current_def)
  have ne: "\<not> isEntry (he_iter ?s)"
    by (simp add: example_defs isEntry_def)
  have walk: "HandleException example_sizes (\<lambda>st it. False) (\<lambda>cx st it rfe. (cx, rfe, False))
     example_cx () example_stack2 example_rfe = Some (LoopDone ?fin)"
    apply (simp add: HandleException_def)
    apply (subst HandleException_loop.simps)
    apply (simp add: JitFrameIterator_ctor_def operator_inc_def prevFp_def Let_def iter_defs
             EnsureExitFrame_def example_defs)
    apply (subst HandleException_loop.simps)
    apply (simp add: JitFrameIterator_ctor_def operator_inc_def prevFp_def Let_def iter_defs
             EnsureExitFrame_def example_defs)
    apply (subst HandleException_loop.simps)
    apply (simp add: JitFrameIterator_ctor_def operator_inc_def prevFp_def Let_def iter_defs
             EnsureExitFrame_def example_defs)
    done
  from inst [THEN conjunct1] p
  have step: "operator_inc example_sizes (\<lambda>st it. False) example_stack2 ?it
          = Some (example_iterator JitFrame_Entry SequentialExecution 1032 4096
                    \<lparr> it_frameSize := 40 \<rparr>)"
    by (simp add: example_defs current_def)
  from inst [THEN conjunct2, THEN conjunct1] p ne
  have last: "\<exists>s'. HandleException_loop example_sizes (\<lambda>st it. False)
                     (\<lambda>cx st it rfe. (cx, rfe, False)) ?s = Some (LoopDone s') \<and>
                   isEntry (he_iter s') \<and> fp (he_iter s') = 1032"
    by (simp add: fp_def example_defs)
  from inst [THEN conjunct2, THEN conjunct2] walk
  have sp: "rfe_stackPointer (he_rfe ?fin) = fp (he_iter ?fin)"
    by blast
  from walk step last p sp show ?thesis
    by (simp add: current_def example_defs)
qed

lemmas mark_defs = MarkIonJSFrame_roots_def MarkFrameAndActualArguments_def
  MarkValueRootAt_def MarkGCThingRootAt_def readValue_def writeValue_def markNunboxSlot_def
  IMPL_TO_JSVAL_def JSVAL_TO_IMPL_def Let_def

subsection \<open>Torn values on the two-word encoding\<close>

lemma ReadAllocation_address:
  "ReadAllocation h sz frame s a
     = map_option (ms_mem s) (allocationAddress h sz frame (ms_stack s) a)"
  by (cases a) (auto split: Option.bind_splits)

lemma WriteAllocation_address:
  "WriteAllocation h sz frame s a v
     = map_option (\<lambda>loc. s\<lparr> ms_mem := (ms_mem s)(loc := v) \<rparr>)
         (allocationAddress h sz frame (ms_stack s) a)"
  by (cases a) (auto split: Option.bind_splits)

text \<open>The struct view of the value made from a tag word and a payload word is those words.\<close>

lemma JSVAL_roundtrip: "JSVAL_TO_IMPL (IMPL_TO_JSVAL l) = l"
proof -
  have t: "ucast (drop_bit 32 (push_bit 32 (ucast (s_tag l) :: 64 word) OR ucast (s_payload l)))
             = s_tag l"
    by (rule bit_word_eqI) (auto simp: bit_simps dest: bit_imp_le_length)
  have p: "ucast (push_bit 32 (ucast (s_tag l) :: 64 word) OR ucast (s_payload l))
             = s_payload l"
    by (rule bit_word_eqI) (auto simp: bit_simps)
  show ?thesis
    unfolding JSVAL_TO_IMPL_def IMPL_TO_JSVAL_def t p by simp
qed

lemma markNunboxSlot_separate:
  assumes ta: "allocationAddress h sz frame (ms_stack s) type = Some ta"
    and pa: "allocationAddress h sz frame (ms_stack s) payload = Some pa"
    and sep: "ta \<noteq> pa"
  defines "v \<equiv> IMPL_TO_JSVAL \<lparr> s_tag = ms_mem s ta, s_payload = ms_mem s pa \<rparr>"
  shows "\<exists>s'. markNunboxSlot trc h sz frame (type, payload) s = Some s' \<and>
              ms_log s' = ms_log s @ [MarkValueRoot_local v ''ion-torn-value''] \<and>
              JSVAL_TO_IMPL v = \<lparr> s_tag = ms_mem s ta, s_payload = ms_mem s pa \<rparr> \<and>
              ms_mem s' ta = ms_mem s ta \<and>
              (\<forall>a. a \<noteq> pa \<longrightarrow> ms_mem s' a = ms_mem s a) \<and>
              ms_mem s' pa = (if markValue trc v \<noteq> v
                              then s_payload (JSVAL_TO_IMPL (markValue trc v))
                              else ms_mem s pa) \<and>
              ms_stack s' = ms_stack s"
  using ta pa sep
  by (simp add: markNunboxSlot_def ReadAllocation_address WriteAllocation_address Let_def v_def
        JSVAL_roundtrip)

lemma traceAllocation_untyped:
  fixes ss :: SnapshotState
  assumes loc: "untypedLocations sit (mode alloc) = Some (ta, pa)" and sep: "ta \<noteq> pa"
  defines "v \<equiv> IMPL_TO_JSVAL \<lparr> s_tag = ss_mem ss ta, s_payload = ss_mem ss pa \<rparr>"
  shows "allocationValue vo sit ss alloc RM_AlwaysDefault = Some v \<and>
         (\<not> isMarkable vo v \<longrightarrow> traceAllocation trc vo sit alloc ss = Some (ss, None)) \<and>
         (isMarkable vo v \<longrightarrow>
            (\<exists>ss'. traceAllocation trc vo sit alloc ss = Some (ss', Some v) \<and>
                  ss_mem ss' ta = ss_mem ss ta \<and>
                  (\<forall>a. a \<noteq> pa \<longrightarrow> ss_mem ss' a = ss_mem ss a) \<and>
                  ss_mem ss' pa = (if markValue trc v \<noteq> v
                                   then s_payload (JSVAL_TO_IMPL (markValue trc v))
                                   else ss_mem ss pa) \<and>
                  ss_constants ss' = ss_constants ss))"
  using loc sep unfolding v_def
  by (cases "mode alloc")
     (auto simp: traceAllocation_def allocationReadable_def allocationValue_def
        writeAllocationValuePayload_def fromRegister_def fromStack_def ReadFrameSlot_def
        WriteFrameSlot_def rm_has_AlwaysDefault_def Let_def
        split: Option.bind_splits)

text \<open>
  C2: on the two-word encoding, when the marking walk reads a torn value whose tag and
  payload live in separate locations, the value handed to the collector is the value made
  of the tag word and the payload word found there, and the write-back after a relocation
  changes the payload's location only: the tag's location, and every other location,
  keeps its contents. This holds for the torn values of a safepoint (\<open>MarkIonJSFrame\<close>) and
  for the untyped allocations of a snapshot (\<open>traceAllocation\<close> with
  \<open>writeAllocationValuePayload\<close>), which hands a value over only if it is markable.
\<close>

theorem torn_value_marking:
  fixes s :: MarkState and ss :: SnapshotState
  defines "v \<equiv> (\<lambda>m ta pa. IMPL_TO_JSVAL \<lparr> s_tag = m ta, s_payload = m pa \<rparr>)"
  shows
  "(allocationAddress h sz frame (ms_stack s) type = Some ta \<and>
    allocationAddress h sz frame (ms_stack s) payload = Some pa \<and> ta \<noteq> pa \<longrightarrow>
      (\<exists>s'. markNunboxSlot trc h sz frame (type, payload) s = Some s' \<and>
            ms_log s' = ms_log s @ [MarkValueRoot_local (v (ms_mem s) ta pa) ''ion-torn-value''] \<and>
            JSVAL_TO_IMPL (v (ms_mem s) ta pa)
              = \<lparr> s_tag = ms_mem s ta, s_payload = ms_mem s pa \<rparr> \<and>
            ms_mem s' ta = ms_mem s ta \<and>
            (\<forall>a. a \<noteq> pa \<longrightarrow> ms_mem s' a = ms_mem s a) \<and>
            ms_mem s' pa = (if markValue trc (v (ms_mem s) ta pa) \<noteq> v (ms_mem s) ta pa
                            then s_payload (JSVAL_TO_IMPL (markValue trc (v (ms_mem s) ta pa)))
                            else ms_mem s pa) \<and>
            ms_stack s' = ms_stack s)) \<and>
   (untypedLocations sit (mode alloc) = Some (ta', pa') \<and> ta' \<noteq> pa' \<longrightarrow>
      allocationValue vo sit ss alloc RM_AlwaysDefault = Some (v (ss_mem ss) ta' pa') \<and>
      (\<not> isMarkable vo (v (ss_mem ss) ta' pa') \<longrightarrow>
         traceAllocation trc vo sit alloc ss = Some (ss, None)) \<and>
      (isMarkable vo (v (ss_mem ss) ta' pa') \<longrightarrow>
         (\<exists>ss'. traceAllocation trc vo sit alloc ss = Some (ss', Some (v (ss_mem ss) ta' pa')) \<and>
               ss_mem ss' ta' = ss_mem ss ta' \<and>
               (\<forall>a. a \<noteq> pa' \<longrightarrow> ss_mem ss' a = ss_mem ss a) \<and>
               ss_mem ss' pa' =
                 (if markValue trc (v (ss_mem ss) ta' pa') \<noteq> v (ss_mem ss) ta' pa'
                  then s_payload (JSVAL_TO_IMPL (markValue trc (v (ss_mem ss) ta' pa')))
                  else ss_mem ss pa') \<and>
               ss_constants ss' = ss_constants ss)))"
  unfolding v_def
  using markNunboxSlot_separate [of h sz frame s type ta payload pa trc]
        traceAllocation_untyped [of sit alloc ta' pa' vo ss trc]
  by blast

theorem torn_value_marking_witness:
  "(\<exists>s'. markNunboxSlot example_tracer
           (example_heap (example_script (Some 5) None) (example_baselineFrame 0 None))
           example_sizes (example_iterator JitFrame_IonJS SequentialExecution 1000 4096)
           (GeneralReg 1, StackSlot 28) example_markState = Some s' \<and>
         ms_log s' = [MarkValueRoot_local 0xFFFFFF8800001000 ''ion-torn-value''] \<and>
         ms_mem s' 964 = 0xFFFFFF88 \<and> ms_mem s' 972 = 0x2000) \<and>
   (\<exists>ss'. traceAllocation example_tracer example_valueOps (example_snapshotIterator [])
            \<lparr> mode = UNTYPED_REG_STACK 1 28, needSideEffect = False \<rparr> example_snapshotState
            = Some (ss', Some 0xFFFFFF8800001000) \<and>
          ss_mem ss' 964 = 0xFFFFFF88 \<and> ss_mem ss' 972 = 0x2000)"
proof -
  let ?h = "example_heap (example_script (Some 5) None) (example_baselineFrame 0 None)"
  let ?it = "example_iterator JitFrame_IonJS SequentialExecution 1000 4096"
  let ?alloc = "\<lparr> mode = UNTYPED_REG_STACK 1 28, needSideEffect = False \<rparr>"
  have ta: "allocationAddress ?h example_sizes ?it (ms_stack example_markState) (GeneralReg 1)
              = Some 964"
    and pa: "allocationAddress ?h example_sizes ?it (ms_stack example_markState) (StackSlot 28)
              = Some 972"
    by (simp_all add: iter_defs example_defs Let_def)
  have loc: "untypedLocations (example_snapshotIterator []) (mode ?alloc) = Some (964, 972)"
    by (simp add: example_defs OffsetOfFrameSlot_def)
  have v: "IMPL_TO_JSVAL \<lparr> s_tag = 0xFFFFFF88, s_payload = 0x1000 \<rparr> = 0xFFFFFF8800001000"
    by (simp add: IMPL_TO_JSVAL_def)
  have p: "s_payload (JSVAL_TO_IMPL 0xFFFFFF8800002000) = 0x2000"
    by (simp add: JSVAL_TO_IMPL_def)
  note inst = torn_value_marking
    [where h = ?h and sz = example_sizes and frame = ?it and s = example_markState
       and type = "GeneralReg 1" and payload = "StackSlot 28" and ta = 964 and pa = 972
       and trc = example_tracer and sit = "example_snapshotIterator []" and alloc = ?alloc
       and ta' = 964 and pa' = 972 and vo = example_valueOps and ss = example_snapshotState]
  have sep: "(964::addr) \<noteq> 972" by simp
  from inst [THEN conjunct1, rule_format, OF conjI [OF ta conjI [OF pa sep]]]
  obtain s' where
    m: "markNunboxSlot example_tracer ?h example_sizes ?it
          (GeneralReg 1, StackSlot 28) example_markState = Some s'"
    and l: "ms_log s' = ms_log example_markState
              @ [MarkValueRoot_local
                   (IMPL_TO_JSVAL \<lparr> s_tag = ms_mem example_markState 964,
                                    s_payload = ms_mem example_markState 972 \<rparr>)
                   ''ion-torn-value'']"
    and t: "ms_mem s' 964 = ms_mem example_markState 964"
    and w: "ms_mem s' 972 =
              (if markValue example_tracer
                    (IMPL_TO_JSVAL \<lparr> s_tag = ms_mem example_markState 964,
                                     s_payload = ms_mem example_markState 972 \<rparr>)
                  \<noteq> IMPL_TO_JSVAL \<lparr> s_tag = ms_mem example_markState 964,
                                      s_payload = ms_mem example_markState 972 \<rparr>
               then s_payload (JSVAL_TO_IMPL (markValue example_tracer
                      (IMPL_TO_JSVAL \<lparr> s_tag = ms_mem example_markState 964,
                                       s_payload = ms_mem example_markState 972 \<rparr>)))
               else ms_mem example_markState 972)"
    by blast
  have a: "\<exists>s'. markNunboxSlot example_tracer ?h example_sizes ?it
                  (GeneralReg 1, StackSlot 28) example_markState = Some s' \<and>
                ms_log s' = [MarkValueRoot_local 0xFFFFFF8800001000 ''ion-torn-value''] \<and>
                ms_mem s' 964 = 0xFFFFFF88 \<and> ms_mem s' 972 = 0x2000"
    using m l t w by (simp add: example_markState_def example_tracer_def v p)
  from inst [THEN conjunct2, rule_format, OF conjI [OF loc sep]]
  have val: "allocationValue example_valueOps (example_snapshotIterator []) example_snapshotState
               ?alloc RM_AlwaysDefault
             = Some (IMPL_TO_JSVAL \<lparr> s_tag = ss_mem example_snapshotState 964,
                                     s_payload = ss_mem example_snapshotState 972 \<rparr>)"
    and tr: "isMarkable example_valueOps
               (IMPL_TO_JSVAL \<lparr> s_tag = ss_mem example_snapshotState 964,
                                s_payload = ss_mem example_snapshotState 972 \<rparr>) \<longrightarrow>
         (\<exists>ss'. traceAllocation example_tracer example_valueOps (example_snapshotIterator [])
                  ?alloc example_snapshotState
                 = Some (ss', Some (IMPL_TO_JSVAL \<lparr> s_tag = ss_mem example_snapshotState 964,
                                     s_payload = ss_mem example_snapshotState 972 \<rparr>)) \<and>
               ss_mem ss' 964 = ss_mem example_snapshotState 964 \<and>
               (\<forall>a. a \<noteq> 972 \<longrightarrow> ss_mem ss' a = ss_mem example_snapshotState a) \<and>
               ss_mem ss' 972 =
                 (if markValue example_tracer
                       (IMPL_TO_JSVAL \<lparr> s_tag = ss_mem example_snapshotState 964,
                                        s_payload = ss_mem example_snapshotState 972 \<rparr>)
                     \<noteq> IMPL_TO_JSVAL \<lparr> s_tag = ss_mem example_snapshotState 964,
                                         s_payload = ss_mem example_snapshotState 972 \<rparr>
                  then s_payload (JSVAL_TO_IMPL (markValue example_tracer
                         (IMPL_TO_JSVAL \<lparr> s_tag = ss_mem example_snapshotState 964,
                                          s_payload = ss_mem example_snapshotState 972 \<rparr>)))
                  else ss_mem example_snapshotState 972) \<and>
               ss_constants ss' = ss_constants example_snapshotState)"
    by blast+
  have b: "\<exists>ss'. traceAllocation example_tracer example_valueOps (example_snapshotIterator [])
                   ?alloc example_snapshotState = Some (ss', Some 0xFFFFFF8800001000) \<and>
                 ss_mem ss' 964 = 0xFFFFFF88 \<and> ss_mem ss' 972 = 0x2000"
    using tr
    by (auto simp: example_snapshotState_def example_tracer_def example_valueOps_def v p)
  from a b show ?thesis by blast
qed

subsection \<open>A float32 in a floating-point register\<close>

text \<open>
  C9: reading a float32 allocation stored in a floating-point register gives the float32
  whose bits are the low 32 bits of the register's 64 bits (the first of the two cells
  the register was spilled to): bit for bit, with no conversion of the double.
\<close>

theorem float32_register_read:
  assumes "mode alloc = FLOAT32_REG r" and "si_fmachine it r = Some a"
  shows "fromFloatRegister it s r = Some (loadDouble (ss_mem s) a) \<and>
         allocationValue vo it s alloc rm
           = Some (Float32Value vo (ucast (loadDouble (ss_mem s) a))) \<and>
         (ucast (loadDouble (ss_mem s) a) :: 32 word) = ss_mem s a \<and>
         (\<forall>n < 32. bit (ucast (loadDouble (ss_mem s) a) :: 32 word) n
                     = bit (loadDouble (ss_mem s) a) n)"
proof -
  have low: "(ucast (loadDouble (ss_mem s) a) :: 32 word) = ss_mem s a"
    unfolding loadDouble_def by (rule bit_word_eqI) (auto simp: bit_simps)
  have bits: "\<forall>n < 32. bit (ucast (loadDouble (ss_mem s) a) :: 32 word) n
                     = bit (loadDouble (ss_mem s) a) n"
    by (auto simp: bit_simps)
  have pun: "pun_load_f (pun_store_d (loadDouble (ss_mem s) a))
               = ucast (loadDouble (ss_mem s) a)"
    by (simp add: pun_load_f_def pun_store_d_def)
  show ?thesis using assms low bits
    by (simp add: allocationValue_def fromFloatRegister_def pun)
qed

theorem float32_register_read_witness:
  "fromFloatRegister (example_snapshotIterator []) example_snapshotState 0
     = Some 0xDEADBEEF3FC00000 \<and>
   allocationValue example_valueOps (example_snapshotIterator []) example_snapshotState
     \<lparr> mode = FLOAT32_REG 0, needSideEffect = False \<rparr> RM_Normal
     = Some (Float32Value example_valueOps 0x3FC00000)"
proof -
  let ?alloc = "\<lparr> mode = FLOAT32_REG 0, needSideEffect = False \<rparr>"
  have m: "mode ?alloc = FLOAT32_REG 0" by simp
  have f: "si_fmachine (example_snapshotIterator []) 0 = Some 2000"
    by (simp add: example_defs)
  have d: "loadDouble (ss_mem example_snapshotState) 2000 = 0xDEADBEEF3FC00000"
    by (simp add: loadDouble_def example_defs)
  have c: "ss_mem example_snapshotState 2000 = 0x3FC00000"
    by (simp add: example_defs)
  note inst = float32_register_read
                [OF m f, of example_snapshotState example_valueOps RM_Normal]
  from inst have "fromFloatRegister (example_snapshotIterator []) example_snapshotState 0
                    = Some 0xDEADBEEF3FC00000"
    unfolding d by blast
  moreover from inst
  have "allocationValue example_valueOps (example_snapshotIterator []) example_snapshotState
          ?alloc RM_Normal
        = Some (Float32Value example_valueOps (ss_mem example_snapshotState 2000))"
    by metis
  ultimately show ?thesis unfolding c by blast
qed

subsection \<open>Recover results: the short circuit\<close>


text \<open>
  C8: when the recover table has exactly one instruction, \<open>initInstructionResults\<close> returns
  true at once, with nothing registered, nothing evaluated and the iterator unchanged; and
  \<open>computeInstructionResults\<close> on results that are not initialized yet marks them
  initialized without allocating a vector (zero entries), asks for no memory and
  evaluates nothing.
\<close>

theorem single_instruction_short_circuit:
  assumes "length (si_instructions it) = 1"
  shows "initInstructionResults vo res fallback fresh it s = Some (True, it, s) \<and>
         (\<not> rr_initialized r \<longrightarrow>
            computeInstructionResults vo res it r count stores
              = Some (True, r\<lparr> rr_initialized := True \<rparr>, count, stores)) \<and>
         computeInstructionResults vo res it (RInstructionResults_ctor fptr) count stores
           = Some (True, \<lparr> rr_results = None, rr_fp = fptr, rr_initialized = True \<rparr>,
                   count, stores)"
proof -
  from assms have ne: "si_instructions it \<noteq> []" by auto
  with assms show ?thesis
    by (simp add: initInstructionResults_def computeInstructionResults_def
          RInstructionResults_init_def RInstructionResults_ctor_def Let_def)
qed

theorem single_instruction_short_circuit_witness:
  "initInstructionResults example_valueOps (example_resources False) example_fallback
     (example_snapshotIterator [RResumePoint]) (example_snapshotIterator [RResumePoint])
     example_recoverState
   = Some (True, example_snapshotIterator [RResumePoint], example_recoverState) \<and>
   computeInstructionResults example_valueOps (example_resources False)
     (example_snapshotIterator [RResumePoint]) (RInstructionResults_ctor 1000) 0 []
   = Some (True, \<lparr> rr_results = None, rr_fp = 1000, rr_initialized = True \<rparr>, 0, [])"
proof -
  have l: "length (si_instructions (example_snapshotIterator [RResumePoint])) = 1"
    by (simp add: example_snapshotIterator_def)
  from single_instruction_short_circuit [OF l] show ?thesis by blast
qed

subsection \<open>The invalidation check in parallel mode\<close>

text \<open>
  On a frame that is not being bailed out, the check is negative in parallel mode and
  leaves \<open>ionScriptOut\<close> unwritten: this is the branch with the comment "Parallel
  execution does not have invalidating bailouts".
\<close>

lemma checkInvalidation_parallel_frame:
  assumes "it_mode it = ParallelExecution" and "\<not> isBailoutJS it"
  shows "checkInvalidation h st it = Some (False, None)"
  using assms by (simp add: checkInvalidation_def Let_def)

text \<open>
  C7 is what the source means to do, and the branch for bailout frames misses it. The
  iterator constructed for a parallel worker whose activation has bailout data is in
  parallel mode and of type \<open>JitFrame_Bailout\<close>. The check tests for a bailout frame
  before it looks at the mode, and compares the artifact that is bailing out with the
  sequential artifact of the script. Here the artifact bailing out, 5, is the current
  parallel artifact of the script, which has no sequential one: nothing has been
  invalidated, and the check reports an invalidation.
\<close>

theorem checkInvalidation_parallel_bailout_frame:
  "it_mode (JitFrameIterator_ctor example_parallel_bailout_cx) = ParallelExecution \<and>
   it_type (JitFrameIterator_ctor example_parallel_bailout_cx) = JitFrame_Bailout \<and>
   map_option bfi_ionScript (bailoutData (activation example_parallel_bailout_cx)) = Some 5 \<and>
   js_parallelIonScript (example_script None (Some 5)) = Some 5 \<and>
   js_ionScript (example_script None (Some 5)) = None \<and>
   ionScriptFromCalleeToken
     (example_heap (example_script None (Some 5)) (example_baselineFrame 0 None))
     (\<lambda>a. example_frame JitFrame_Exit 24)
     (JitFrameIterator_ctor example_parallel_bailout_cx) = Some 5 \<and>
   checkInvalidation (example_heap (example_script None (Some 5)) (example_baselineFrame 0 None))
     (\<lambda>a. example_frame JitFrame_Exit 24)
     (JitFrameIterator_ctor example_parallel_bailout_cx) = Some (True, Some 5)"
  by (simp add: JitFrameIterator_ctor_def example_parallel_bailout_cx_def checkInvalidation_def
        ionScriptFromCalleeToken_def Let_def isBailoutJS_def example_heap_def example_script_def)

subsection \<open>Marking an invalidated optimized frame\<close>

text \<open>The marking steps hand roots to the collector: they only append to the log.\<close>

lemma MarkRootAt_log:
  "ms_log (MarkValueRootAt trc a n s) = ms_log s @ [MarkValueRoot a n]"
  "ms_log (MarkGCThingRootAt trc a n s) = ms_log s @ [MarkGCThingRoot a n]"
  by (simp_all add: MarkValueRootAt_def MarkGCThingRootAt_def)

lemma fold_MarkValueRootAt_log:
  "\<exists>l. ms_log (fold (\<lambda>x. MarkValueRootAt trc (g x) n) xs s) = ms_log s @ l"
proof (induction xs arbitrary: s)
  case Nil
  show ?case by simp
next
  case (Cons a xs)
  from Cons [of "MarkValueRootAt trc (g a) n s"] obtain l where
    "ms_log (fold (\<lambda>x. MarkValueRootAt trc (g x) n) xs (MarkValueRootAt trc (g a) n s))
       = ms_log (MarkValueRootAt trc (g a) n s) @ l"
    by blast
  then show ?case by (simp add: MarkRootAt_log)
qed

lemma fold_MarkGCThingRootAt_log:
  "\<exists>l. ms_log (fold (\<lambda>x. MarkGCThingRootAt trc (g x) n) xs s) = ms_log s @ l"
proof (induction xs arbitrary: s)
  case Nil
  show ?case by simp
next
  case (Cons a xs)
  from Cons [of "MarkGCThingRootAt trc (g a) n s"] obtain l where
    "ms_log (fold (\<lambda>x. MarkGCThingRootAt trc (g x) n) xs (MarkGCThingRootAt trc (g a) n s))
       = ms_log (MarkGCThingRootAt trc (g a) n s) @ l"
    by blast
  then show ?case by (simp add: MarkRootAt_log)
qed

lemma markSpills_log:
  "\<exists>l. ms_log (markSpills trc gcRegs valueRegs rs spill s) = ms_log s @ l"
proof (induction rs arbitrary: spill s)
  case Nil
  show ?case by simp
next
  case (Cons r rs)
  let ?s = "if r \<in> set gcRegs then MarkGCThingRootAt trc (spill - 4) ''ion-gc-spill'' s
            else if r \<in> set valueRegs then MarkValueRootAt trc (spill - 4) ''ion-value-spill'' s
            else s"
  from Cons.IH [of "spill - 4" ?s] obtain l where
    l: "ms_log (markSpills trc gcRegs valueRegs rs (spill - 4) ?s) = ms_log ?s @ l"
    by blast
  have "\<exists>l0. ms_log ?s = ms_log s @ l0"
    by (simp add: MarkRootAt_log)
  then obtain l0 where "ms_log ?s = ms_log s @ l0" by blast
  with l show ?case by simp
qed

lemma WriteAllocation_log:
  "WriteAllocation h sz frame s a v = Some s' \<Longrightarrow> ms_log s' = ms_log s"
  by (cases a) (auto split: Option.bind_splits)

lemma markNunboxSlot_log:
  assumes "markNunboxSlot trc h sz frame tp s = Some s'"
  shows "\<exists>l. ms_log s' = ms_log s @ l"
  using assms
  by (auto simp: markNunboxSlot_def Let_def split: Option.bind_splits if_splits
        dest!: WriteAllocation_log)

lemma markNunboxSlots_log:
  assumes "markNunboxSlots trc h sz frame tps s = Some s'"
  shows "\<exists>l. ms_log s' = ms_log s @ l"
  using assms
proof (induction tps arbitrary: s)
  case Nil
  then show ?case by simp
next
  case (Cons tp tps)
  from Cons.prems obtain s1 where
    a: "markNunboxSlot trc h sz frame tp s = Some s1"
    and b: "markNunboxSlots trc h sz frame tps s1 = Some s'"
    by (auto split: Option.bind_splits)
  from markNunboxSlot_log [OF a] Cons.IH [OF b] show ?case by auto
qed

text \<open>The marking steps on stack memory leave the frame headers as they are.\<close>

lemma MarkRootAt_stack:
  "ms_stack (MarkValueRootAt trc a n s) = ms_stack s"
  "ms_stack (MarkGCThingRootAt trc a n s) = ms_stack s"
  by (simp_all add: MarkValueRootAt_def MarkGCThingRootAt_def)

lemma fold_MarkValueRootAt_stack:
  "ms_stack (fold (\<lambda>x. MarkValueRootAt trc (g x) n) xs s) = ms_stack s"
  by (induction xs arbitrary: s) (auto simp: MarkRootAt_stack)

lemma fold_MarkGCThingRootAt_stack:
  "ms_stack (fold (\<lambda>x. MarkGCThingRootAt trc (g x) n) xs s) = ms_stack s"
  by (induction xs arbitrary: s) (auto simp: MarkRootAt_stack)

lemma markSpills_stack:
  "ms_stack (markSpills trc gcRegs valueRegs rs spill s) = ms_stack s"
  by (induction rs arbitrary: spill s) (auto simp: MarkRootAt_stack)

text \<open>
  C1. Take an optimized frame (type \<open>JitFrame_IonJS\<close>). The artifact recorded at the
  frame's return address is read through the 32-bit offset stored in the four bytes before
  the return address: the pointer is at the return address plus that offset. It is the
  artifact whose code the return address lies in (the source asserts that it contains the
  return address, and the code of no other artifact does). The callee's current artifact
  is the one its script holds for the mode of the walk; in parallel mode frames are not
  invalidated, so there it is the recorded one. If the callee's current artifact differs
  from the recorded one (or the callee has none), then \<open>checkInvalidation\<close> reports the
  frame as invalidated and returns the recorded artifact, and \<open>MarkIonJSFrame\<close>, after
  marking the callee token, traces the recorded artifact, marks the arguments, and then
  marks what the safepoint of the recorded artifact lists for the return address: its GC
  slots, its value slots, its spilled registers below the spill base that the frame size
  of the recorded artifact gives, and its torn values, whose registers are located by the
  recorded artifact's safepoint too (at the cached safepoint index, if the iterator has
  one). The roots handed to the collector begin with the callee token and the recorded
  artifact.
\<close>

theorem invalidated_frame_marking:
  fixes trc h sz it s
  defines "marked \<equiv> MarkCalleeToken trc (calleeToken (ms_stack s (fp it)))"
  defines "s1 \<equiv> s\<lparr> ms_stack := (ms_stack s)(fp it := (ms_stack s (fp it))
                                      \<lparr> calleeToken := fst marked \<rparr>),
                     ms_log := ms_log s @ [snd marked] \<rparr>"
    and "ret \<equiv> returnAddressToFp it"
  defines "current_artifact \<equiv> ionScriptFromCalleeToken h (ms_stack s1) it"
    and "recorded \<equiv> GetPointer h (ret + sint (int32At h (ret - 4)))"
  defines "stale \<equiv> ionScripts h recorded"
  defines "sp \<equiv> is_safepoint stale (is_getSafepointIndex stale ret)"
    and "s2 \<equiv> fold (\<lambda>i. MarkValueRootAt trc (argv sz (fp it) + 8 * int i) ''ion-argv'')
                 [0 ..< numActualArgs (ms_stack s (fp it)) + 1]
                 (s1\<lparr> ms_log := ms_log s1 @ [IonScript_Trace recorded] \<rparr>)"
  defines "s3 \<equiv> fold (\<lambda>slot. MarkGCThingRootAt trc (slotRef (fp it) slot) ''ion-gc-slot'')
                 (sp_gcSlots sp) s2"
  defines "s4 \<equiv> fold (\<lambda>slot. MarkValueRootAt trc (slotRef (fp it) slot) ''ion-gc-slot'')
                 (sp_valueSlots sp) s3"
  defines "s5 \<equiv> markSpills trc (sp_gcSpills sp) (sp_valueSpills sp) (sp_allGprSpills sp)
                 (fp it - int (is_frameSize stale)) s4"
  assumes ion: "isIonJS it"
    and differs: "current_artifact \<noteq> Some recorded"
    and owner: "\<forall>p. is_containsReturnAddress (ionScripts h p) ret \<longrightarrow> p = recorded"
    and parallel: "it_mode it = ParallelExecution \<longrightarrow> current_artifact = Some recorded"
  shows "checkInvalidation h (ms_stack s1) it = Some (True, Some recorded) \<and>
         MarkIonJSFrame trc h sz it s
           = markNunboxSlots trc h sz it (sp_nunboxSlots sp) s5 \<and>
         ms_stack s5 = ms_stack s1 \<and>
         machineState h (ms_stack s1) it
           = Some (setRegisterLocations
                     (sp_allGprSpills
                        (is_safepoint stale
                           (case it_cachedSafepointIndex it of
                              Some si \<Rightarrow> si
                            | None \<Rightarrow> is_getSafepointIndex stale ret)))
                     (fp it - int (is_frameSize stale)) Map.empty) \<and>
         (\<forall>s'. MarkIonJSFrame trc h sz it s = Some s' \<longrightarrow>
            (\<exists>l. ms_log s' = ms_log s @ [snd marked, IonScript_Trace recorded] @ l))"
proof -
  have seq: "it_mode it = SequentialExecution"
    using differs parallel by (cases "it_mode it") auto
  have cur: "current_artifact = js_ionScript (scripts h (script h (ms_stack s1) it))"
    using seq by (simp add: current_artifact_def ionScriptFromCalleeToken_def)
  have inv: "(case js_ionScript (scripts h (script h (ms_stack s1) it)) of None \<Rightarrow> True
              | Some cur \<Rightarrow> \<not> is_containsReturnAddress (ionScripts h cur) ret)"
    using differs owner unfolding cur by (auto split: option.splits)
  have nb: "\<not> isBailoutJS it"
    using ion by (simp add: isIonJS_def isBailoutJS_def)
  have ci: "checkInvalidation h (ms_stack s1) it = Some (True, Some recorded)"
    using seq nb inv
    by (simp add: checkInvalidation_def Let_def ret_def [symmetric] recorded_def)
  have isc: "\<And>st. ms_stack s1 = st \<Longrightarrow> ionScript h st it = Some recorded"
    using nb ci by (auto simp: ionScript_def)
  have st2: "ms_stack s2 = ms_stack s1"
    unfolding s2_def fold_MarkValueRootAt_stack by simp
  have st3: "ms_stack s3 = ms_stack s1"
    unfolding s3_def fold_MarkGCThingRootAt_stack by (rule st2)
  have st4: "ms_stack s4 = ms_stack s1"
    unfolding s4_def fold_MarkValueRootAt_stack by (rule st3)
  have st5: "ms_stack s5 = ms_stack s1"
    unfolding s5_def markSpills_stack by (rule st4)
  have args: "MarkFrameAndActualArguments trc sz it
                (s1\<lparr> ms_log := ms_log s1 @ [IonScript_Trace recorded] \<rparr>) = Some s2"
    using nb by (simp add: MarkFrameAndActualArguments_def jsFrame_def s2_def s1_def Let_def)
  have sb: "spillBase h (ms_stack s4) it = Some (fp it - int (is_frameSize stale))"
    using isc [OF st4 [symmetric]] by (simp add: spillBase_def stale_def)
  have roots: "MarkIonJSFrame_roots trc h sz it recorded
                 (s1\<lparr> ms_log := ms_log s1 @ [IonScript_Trace recorded] \<rparr>)
               = markNunboxSlots trc h sz it (sp_nunboxSlots sp) s5"
    unfolding MarkIonJSFrame_roots_def args
    using sb
    by (simp add: Let_def stale_def [symmetric] ret_def [symmetric] sp_def [symmetric]
          s3_def [symmetric] s4_def [symmetric] s5_def [symmetric])
  have m: "MarkIonJSFrame trc h sz it s
           = markNunboxSlots trc h sz it (sp_nunboxSlots sp) s5"
    unfolding roots [symmetric]
    using ci unfolding s1_def marked_def
    by (simp add: MarkIonJSFrame_def Let_def split_def)
  have ms: "machineState h (ms_stack s1) it
              = Some (setRegisterLocations
                        (sp_allGprSpills
                           (is_safepoint stale
                              (case it_cachedSafepointIndex it of
                                 Some si \<Rightarrow> si
                               | None \<Rightarrow> is_getSafepointIndex stale ret)))
                        (fp it - int (is_frameSize stale)) Map.empty)"
    using nb isc [OF refl]
    by (simp add: machineState_def safepoint_def spillBase_def stale_def ret_def
          split: option.splits)
  have lg: "\<exists>l. ms_log s' = ms_log s @ [snd marked, IonScript_Trace recorded] @ l"
    if run: "MarkIonJSFrame trc h sz it s = Some s'" for s'
  proof -
    obtain l2 where l2: "ms_log s2 = (ms_log s @ [snd marked, IonScript_Trace recorded]) @ l2"
      using fold_MarkValueRootAt_log
        [of trc "\<lambda>i. argv sz (fp it) + 8 * int i" "''ion-argv''"
            "[0 ..< numActualArgs (ms_stack s (fp it)) + 1]"
            "s1\<lparr> ms_log := ms_log s1 @ [IonScript_Trace recorded] \<rparr>"]
      by (auto simp: s2_def s1_def)
    obtain l3 where l3: "ms_log s3 = ms_log s2 @ l3"
      unfolding s3_def using fold_MarkGCThingRootAt_log by blast
    obtain l4 where l4: "ms_log s4 = ms_log s3 @ l4"
      unfolding s4_def using fold_MarkValueRootAt_log by blast
    obtain l5 where l5: "ms_log s5 = ms_log s4 @ l5"
      unfolding s5_def using markSpills_log by blast
    from run m have "markNunboxSlots trc h sz it (sp_nunboxSlots sp) s5 = Some s'"
      by simp
    from markNunboxSlots_log [OF this] obtain l6 where "ms_log s' = ms_log s5 @ l6"
      by blast
    with l2 l3 l4 l5 show ?thesis by simp
  qed
  from ci m st5 ms lg show ?thesis by blast
qed
theorem invalidated_frame_marking_witness:
  "isIonJS (example_iterator JitFrame_IonJS SequentialExecution 1000 4096) \<and>
   ionScriptFromCalleeToken
     (example_heap (example_script (Some 6) None) (example_baselineFrame 0 None))
     (ms_stack example_markState)
     (example_iterator JitFrame_IonJS SequentialExecution 1000 4096) = Some 6 \<and>
   GetPointer (example_heap (example_script (Some 6) None) (example_baselineFrame 0 None))
     (4096 + sint (int32At (example_heap (example_script (Some 6) None)
                              (example_baselineFrame 0 None)) (4096 - 4))) = 5 \<and>
   checkInvalidation (example_heap (example_script (Some 6) None) (example_baselineFrame 0 None))
     (ms_stack example_markState)
     (example_iterator JitFrame_IonJS SequentialExecution 1000 4096) = Some (True, Some 5) \<and>
   map_option ms_log
     (MarkIonJSFrame example_tracer
        (example_heap (example_script (Some 6) None) (example_baselineFrame 0 None))
        example_sizes (example_iterator JitFrame_IonJS SequentialExecution 1000 4096)
        example_markState)
   = Some [MarkScriptRoot 1 ''jit-script'', IonScript_Trace 5,
           MarkValueRoot 1016 ''ion-argv'', MarkGCThingRoot 992 ''ion-gc-slot'',
           MarkValueRoot 984 ''ion-gc-slot'',
           MarkValueRoot_local 0xFFFFFF8800001000 ''ion-torn-value'']"
proof -
  let ?h = "example_heap (example_script (Some 6) None) (example_baselineFrame 0 None)"
  let ?it = "example_iterator JitFrame_IonJS SequentialExecution 1000 4096"
  have rec: "GetPointer ?h (returnAddressToFp ?it + sint (int32At ?h (returnAddressToFp ?it - 4)))
               = 5"
    by (simp add: example_defs returnAddressToFp_def)
  have st: "(ms_stack example_markState)
              (fp ?it := (ms_stack example_markState (fp ?it))
                 \<lparr> calleeToken := fst (MarkCalleeToken example_tracer
                                         (calleeToken (ms_stack example_markState (fp ?it)))) \<rparr>)
            = ms_stack example_markState"
    by (rule ext) (simp add: example_defs fp_def)
  have ion: "isIonJS ?it"
    by (simp add: example_defs isIonJS_def)
  have cur: "ionScriptFromCalleeToken ?h (ms_stack example_markState) ?it = Some 6"
    by (simp add: example_defs iter_defs)
  have differs: "ionScriptFromCalleeToken ?h
                   (ms_stack (example_markState
                      \<lparr> ms_stack := (ms_stack example_markState)
                           (fp ?it := (ms_stack example_markState (fp ?it))
                              \<lparr> calleeToken := fst (MarkCalleeToken example_tracer
                                   (calleeToken (ms_stack example_markState (fp ?it)))) \<rparr>),
                         ms_log := ms_log example_markState
                           @ [snd (MarkCalleeToken example_tracer
                                     (calleeToken (ms_stack example_markState (fp ?it))))] \<rparr>))
                   ?it
                 \<noteq> Some (GetPointer ?h (returnAddressToFp ?it
                                          + sint (int32At ?h (returnAddressToFp ?it - 4))))"
    unfolding rec by (simp add: st cur)
  have owner: "\<forall>p. is_containsReturnAddress (ionScripts ?h p) (returnAddressToFp ?it)
                  \<longrightarrow> p = GetPointer ?h (returnAddressToFp ?it
                                          + sint (int32At ?h (returnAddressToFp ?it - 4)))"
    unfolding rec by (simp add: example_defs returnAddressToFp_def)
  have mode: "it_mode ?it = ParallelExecution \<longrightarrow> X" for X
    by (simp add: example_defs)
  note inst = invalidated_frame_marking [OF ion differs owner mode,
                where sz = example_sizes, unfolded rec st]
  from inst have ci: "checkInvalidation ?h (ms_stack example_markState) ?it
                        = Some (True, Some 5)"
    by simp
  from inst have m: "MarkIonJSFrame example_tracer ?h example_sizes ?it example_markState
    = markNunboxSlots example_tracer ?h example_sizes ?it
        (sp_nunboxSlots (is_safepoint (ionScripts ?h 5)
           (is_getSafepointIndex (ionScripts ?h 5) (returnAddressToFp ?it))))
        (markSpills example_tracer
           (sp_gcSpills (is_safepoint (ionScripts ?h 5)
              (is_getSafepointIndex (ionScripts ?h 5) (returnAddressToFp ?it))))
           (sp_valueSpills (is_safepoint (ionScripts ?h 5)
              (is_getSafepointIndex (ionScripts ?h 5) (returnAddressToFp ?it))))
           (sp_allGprSpills (is_safepoint (ionScripts ?h 5)
              (is_getSafepointIndex (ionScripts ?h 5) (returnAddressToFp ?it))))
           (fp ?it - int (is_frameSize (ionScripts ?h 5)))
           (fold (\<lambda>slot. MarkValueRootAt example_tracer (slotRef (fp ?it) slot) ''ion-gc-slot'')
              (sp_valueSlots (is_safepoint (ionScripts ?h 5)
                 (is_getSafepointIndex (ionScripts ?h 5) (returnAddressToFp ?it))))
              (fold (\<lambda>slot. MarkGCThingRootAt example_tracer (slotRef (fp ?it) slot)
                              ''ion-gc-slot'')
                 (sp_gcSlots (is_safepoint (ionScripts ?h 5)
                    (is_getSafepointIndex (ionScripts ?h 5) (returnAddressToFp ?it))))
                 (fold (\<lambda>i. MarkValueRootAt example_tracer
                                (argv example_sizes (fp ?it) + 8 * int i) ''ion-argv'')
                    [0 ..< numActualArgs (ms_stack example_markState (fp ?it)) + 1]
                    (example_markState
                       \<lparr> ms_stack := ms_stack example_markState,
                         ms_log := ms_log example_markState
                           @ [snd (MarkCalleeToken example_tracer
                                     (calleeToken (ms_stack example_markState (fp ?it))))],
                         ms_log := ms_log (example_markState
                           \<lparr> ms_stack := ms_stack example_markState,
                             ms_log := ms_log example_markState
                               @ [snd (MarkCalleeToken example_tracer
                                         (calleeToken (ms_stack example_markState (fp ?it))))] \<rparr>)
                           @ [IonScript_Trace 5] \<rparr>)))))"
    by simp
  have roots: "map_option ms_log
     (MarkIonJSFrame example_tracer ?h example_sizes ?it example_markState)
   = Some [MarkScriptRoot 1 ''jit-script'', IonScript_Trace 5,
           MarkValueRoot 1016 ''ion-argv'', MarkGCThingRoot 992 ''ion-gc-slot'',
           MarkValueRoot 984 ''ion-gc-slot'',
           MarkValueRoot_local 0xFFFFFF8800001000 ''ion-torn-value'']"
    unfolding m
    by (simp add: mark_defs iter_defs example_defs)
  from ion cur rec ci roots show ?thesis
    by (simp add: example_defs returnAddressToFp_def)
qed

subsection \<open>Recover results: evaluation once, then the cache\<close>













subsection \<open>Catch dispatch in a baseline frame\<close>

text \<open>
  The block of the debugger's hook is skipped outside debuggee compartments, and a hook
  that does not ask for a return leaves the scripts of the heap as they are.
\<close>

lemma HandleExceptionBaseline_debugger_skipped:
  "\<not> cx_isDebuggee (eh_cx s) \<Longrightarrow> HandleExceptionBaseline_debugger env frame pc s = Some (False, s)"
  by (simp add: HandleExceptionBaseline_debugger_def)

lemma HandleExceptionBaseline_debugger_scripts:
  assumes "HandleExceptionBaseline_debugger env frame pc s = Some (False, s0)"
  shows "scripts (eh_heap s0) = scripts (eh_heap s)"
  using assms
  by (auto simp: HandleExceptionBaseline_debugger_def Let_def
        unsetIsDebuggerHandlingException_def setBaselineFrame_def
        split: if_splits prod.splits JSTrapStatus.splits)

text \<open>
  C5, as the source has it. The scenario is the one of the exception handler's try-note
  scan: no forced return is being propagated, and the debugger's unwind hook, if it runs
  (in a debuggee compartment), does not ask for a return; \<open>s0\<close> is the state when the try
  notes are examined (the state at entry if the hook does not run). Take a try-note table
  of one CATCH region covering the bytecode offsets [10, 20) at stack depth 2, the current
  pc at offset 15 from \<open>main()\<close>, a frame stack depth of at least 2, and a pending
  exception that can be read and is not the marker of a closing generator. Then the
  handler sets the resume kind to \<open>RESUME_CATCH\<close> and the resume target to the native code
  address of the pc at offset 20, and resets the warm-up counter of the script; the frame
  pointer and the stack pointer to resume with are those of the frame at depth 2.
\<close>

theorem baseline_catch_dispatch:
  fixes env st mem frame s s0
  defines "scr \<equiv> script (eh_heap s) st frame"
  defines "jsscript \<equiv> scripts (eh_heap s) scr"
    and "tn \<equiv> \<lparr> tn_kind = JSTRY_CATCH, tn_stackDepth = 2, tn_start = 10, tn_length = 10 \<rparr>"
  defines "cx1 \<equiv> (eh_cx s0)\<lparr> cx_calls := cx_calls (eh_cx s0)
                                 @ [UnwindScope (env_UnwindScopeToTryPc env jsscript tn)] \<rparr>"
  assumes tns: "js_trynotes jsscript = Some [tn]"
    and pc: "baselineScriptAndPc (eh_heap s) st frame True True
               = Some (Some scr, Some (js_main jsscript + 15))"
    and noforced: "\<not> cx_isPropagatingForcedReturn (eh_cx s)"
    and hook: "HandleExceptionBaseline_debugger env frame (js_main jsscript + 15) s
                 = Some (False, s0)"
    and pending: "cx_isExceptionPending (eh_cx s0)"
    and depth: "js_nfixed jsscript + 2 \<le> bf_numValueSlots (baselineFrame (eh_heap s0) frame)"
    and exc: "env_getPendingException env cx1 = Some exception"
    and ordinary: "\<not> env_isGeneratorClosing env exception"
  shows "\<exists>s'. HandleExceptionBaseline env st mem frame s = Some s' \<and>
              rfe_kind (eh_rfe s') = RESUME_CATCH \<and>
              rfe_target (eh_rfe s')
                = nativeCodeForPC (js_baselineScript jsscript) (js_main jsscript + 20) \<and>
              js_warmUpCounter (scripts (eh_heap s') scr) = 0 \<and>
              rfe_framePointer (eh_rfe s') = fp frame - int (env_FramePointerOffset env) \<and>
              rfe_stackPointer (eh_rfe s')
                = fp frame - int (env_FramePointerOffset env) - int (env_BaselineFrame_Size env)
                    - int ((js_nfixed jsscript + 2) * 8)"
proof -
  have off: "(word_of_int (js_main jsscript + 15 - js_main jsscript) :: 32 word) = 15"
    by simp
  have scripts0: "scripts (eh_heap s0) scr = jsscript"
    using HandleExceptionBaseline_debugger_scripts [OF hook] by (simp add: jsscript_def)
  have tns': "js_trynotes (scripts (eh_heap s0) scr) = Some [tn]"
    using tns by (simp add: scripts0)
  have exc': "env_getPendingException env
                ((eh_cx s0)\<lparr> cx_calls := cx_calls (eh_cx s0)
                    @ [UnwindScope (env_UnwindScopeToTryPc env jsscript
                         \<lparr> tn_kind = JSTRY_CATCH, tn_stackDepth = 2, tn_start = 10,
                           tn_length = 10 \<rparr>)] \<rparr>) = Some exception"
    using exc by (simp add: cx1_def tn_def)
  have loop: "\<exists>s'. handleTryNotes env mem frame scr 15 [tn] s0 = Some (True, s') \<and>
                rfe_kind (eh_rfe s') = RESUME_CATCH \<and>
                rfe_target (eh_rfe s')
                  = nativeCodeForPC (js_baselineScript jsscript) (js_main jsscript + 20) \<and>
                js_warmUpCounter (scripts (eh_heap s') scr) = 0 \<and>
                rfe_framePointer (eh_rfe s') = fp frame - int (env_FramePointerOffset env) \<and>
                rfe_stackPointer (eh_rfe s')
                  = fp frame - int (env_FramePointerOffset env)
                      - int (env_BaselineFrame_Size env) - int ((js_nfixed jsscript + 2) * 8)"
    using depth pending exc' ordinary
    by (simp add: tn_def scripts0 Let_def resetWarmUpCounter_def add.commute [of 20])
  then obtain s' where
    l: "handleTryNotes env mem frame scr 15 [tn] s0 = Some (True, s')" and
    r: "rfe_kind (eh_rfe s') = RESUME_CATCH \<and>
        rfe_target (eh_rfe s')
          = nativeCodeForPC (js_baselineScript jsscript) (js_main jsscript + 20) \<and>
        js_warmUpCounter (scripts (eh_heap s') scr) = 0 \<and>
        rfe_framePointer (eh_rfe s') = fp frame - int (env_FramePointerOffset env) \<and>
        rfe_stackPointer (eh_rfe s')
          = fp frame - int (env_FramePointerOffset env)
              - int (env_BaselineFrame_Size env) - int ((js_nfixed jsscript + 2) * 8)"
    by blast
  have run: "HandleExceptionBaseline env st mem frame s = Some s'"
    using pc noforced hook tns' l
    by (simp add: HandleExceptionBaseline_def off scripts0)
  show ?thesis
    using run r by blast
qed

theorem baseline_catch_dispatch_witness:
  "js_trynotes (example_script None None)
     = Some [\<lparr> tn_kind = JSTRY_CATCH, tn_stackDepth = 2, tn_start = 10, tn_length = 10 \<rparr>] \<and>
   baselineScriptAndPc (eh_heap (example_ehState False False None))
     (\<lambda>a. example_frame JitFrame_Entry 24)
     (example_iterator JitFrame_BaselineJS SequentialExecution 1000 8292) True True
     = Some (Some 1, Some (js_main (example_script None None) + 15)) \<and>
   baselineScriptAndPc (eh_heap (example_ehState False True None))
     (\<lambda>a. example_frame JitFrame_Entry 24)
     (example_iterator JitFrame_BaselineJS SequentialExecution 1000 8292) True True
     = Some (Some 1, Some (js_main (example_script None None) + 15)) \<and>
   js_warmUpCounter (example_script None None) = 1000 \<and>
   (\<exists>s'. HandleExceptionBaseline (example_env False False JSTRAP_CONTINUE)
           (\<lambda>a. example_frame JitFrame_Entry 24) (\<lambda>a. 0)
           (example_iterator JitFrame_BaselineJS SequentialExecution 1000 8292)
           (example_ehState False False None) = Some s' \<and>
         rfe_kind (eh_rfe s') = RESUME_CATCH \<and>
         rfe_target (eh_rfe s') = 8312 \<and>
         js_warmUpCounter (scripts (eh_heap s') 1) = 0 \<and>
         rfe_framePointer (eh_rfe s') = 992 \<and>
         rfe_stackPointer (eh_rfe s') = 912) \<and>
   cx_isDebuggee (eh_cx (example_ehState False True None)) \<and>
   (\<exists>s'. HandleExceptionBaseline (example_env False False JSTRAP_CONTINUE)
           (\<lambda>a. example_frame JitFrame_Entry 24) (\<lambda>a. 0)
           (example_iterator JitFrame_BaselineJS SequentialExecution 1000 8292)
           (example_ehState False True None) = Some s' \<and>
         rfe_kind (eh_rfe s') = RESUME_CATCH \<and>
         rfe_target (eh_rfe s') = 8312 \<and>
         js_warmUpCounter (scripts (eh_heap s') 1) = 0 \<and>
         rfe_framePointer (eh_rfe s') = 992 \<and>
         rfe_stackPointer (eh_rfe s') = 912)"
proof -
  let ?frame = "example_iterator JitFrame_BaselineJS SequentialExecution 1000 8292"
  let ?st = "\<lambda>a::addr. example_frame JitFrame_Entry 24"
  let ?env = "example_env False False JSTRAP_CONTINUE"
  let ?s = "example_ehState False True None"
  let ?after = "unsetIsDebuggerHandlingException ?frame
               (?s\<lparr> eh_cx := eh_cx ?s,
                    eh_heap := setBaselineFrame (eh_heap ?s) (fp ?frame)
                      ((baselineFrame (eh_heap ?s) ?frame)
                         \<lparr> bf_isDebuggerHandlingException := True \<rparr>) \<rparr>)"
  have pc: "baselineScriptAndPc (eh_heap (example_ehState False debuggee None)) ?st ?frame
              True True = Some (Some 1, Some 525)" for debuggee
    by (simp add: baselineScriptAndPc_def example_defs iter_defs baselineFrame_def
        prologueEntryAddr_def postDebugPrologueAddr_def Let_def)
  have plain: "\<exists>s'. HandleExceptionBaseline ?env ?st (\<lambda>a. 0) ?frame
                      (example_ehState False False None) = Some s' \<and>
         rfe_kind (eh_rfe s') = RESUME_CATCH \<and>
         rfe_target (eh_rfe s') = 8312 \<and>
         js_warmUpCounter (scripts (eh_heap s') 1) = 0 \<and>
         rfe_framePointer (eh_rfe s') = 992 \<and>
         rfe_stackPointer (eh_rfe s') = 912"
    using pc [of False]
      baseline_catch_dispatch [where s = "example_ehState False False None"
        and s0 = "example_ehState False False None" and st = ?st and frame = ?frame
        and env = ?env and exception = 99 and mem = "\<lambda>a. 0"]
    by (simp add: example_defs iter_defs baselineFrame_def nativeCodeForPC_def
          HandleExceptionBaseline_debugger_def)
  have hooked: "\<exists>s'. HandleExceptionBaseline ?env ?st (\<lambda>a. 0) ?frame ?s = Some s' \<and>
         rfe_kind (eh_rfe s') = RESUME_CATCH \<and>
         rfe_target (eh_rfe s') = 8312 \<and>
         js_warmUpCounter (scripts (eh_heap s') 1) = 0 \<and>
         rfe_framePointer (eh_rfe s') = 992 \<and>
         rfe_stackPointer (eh_rfe s') = 912"
    using pc [of True]
      baseline_catch_dispatch [where s = ?s and s0 = ?after and st = ?st and frame = ?frame
        and env = ?env and exception = 99 and mem = "\<lambda>a. 0"]
    by (simp add: example_defs iter_defs baselineFrame_def nativeCodeForPC_def
          HandleExceptionBaseline_debugger_def unsetIsDebuggerHandlingException_def
          setBaselineFrame_def)
  from pc [of False] pc [of True] plain hooked show ?thesis
    by (simp add: example_defs)
qed

text \<open>
  C5 as stated fails when the pending exception cannot be read. In the scenario (no
  forced return, no debuggee, the CATCH region [10, 20) at depth 2, the pc at offset 15, a
  frame stack depth of 2, an exception pending), with \<open>getPendingException\<close> failing, the
  handler skips the catch block: the resume kind and the resume target are left as they
  were, and the warm-up counter keeps its value.
\<close>

theorem baseline_catch_dispatch_counterexample:
  "cx_isExceptionPending (eh_cx (example_ehState False False None)) \<and>
   \<not> cx_isPropagatingForcedReturn (eh_cx (example_ehState False False None)) \<and>
   \<not> cx_isDebuggee (eh_cx (example_ehState False False None)) \<and>
   js_trynotes (example_script None None)
     = Some [\<lparr> tn_kind = JSTRY_CATCH, tn_stackDepth = 2, tn_start = 10, tn_length = 10 \<rparr>] \<and>
   bf_numValueSlots (example_baselineFrame 0 None) - js_nfixed (example_script None None) = 2 \<and>
   baselineScriptAndPc (eh_heap (example_ehState False False None))
     (\<lambda>a. example_frame JitFrame_Entry 24)
     (example_iterator JitFrame_BaselineJS SequentialExecution 1000 8292) True True
     = Some (Some 1, Some (js_main (example_script None None) + 15)) \<and>
   rfe_kind (eh_rfe (example_ehState False False None)) = RESUME_ENTRY_FRAME \<and>
   rfe_target (eh_rfe (example_ehState False False None)) = 0 \<and>
   map_option (\<lambda>s'. (rfe_kind (eh_rfe s'), rfe_target (eh_rfe s'),
                      js_warmUpCounter (scripts (eh_heap s') 1)))
     (HandleExceptionBaseline (example_env False True JSTRAP_CONTINUE)
        (\<lambda>a. example_frame JitFrame_Entry 24) (\<lambda>a. 0)
        (example_iterator JitFrame_BaselineJS SequentialExecution 1000 8292)
        (example_ehState False False None))
     = Some (RESUME_ENTRY_FRAME, 0, 1000)"
  by (simp add: HandleExceptionBaseline_def HandleExceptionBaseline_debugger_def
      baselineScriptAndPc_def example_defs iter_defs
      baselineFrame_def prologueEntryAddr_def postDebugPrologueAddr_def Let_def
      HandleClosingGeneratorReturn_def)

end
